theory Spec2Isabelle
  imports Main "HOL-Library.Word" "HOL-Library.AList" "HOL-Library.Sublist"
    "HOL-Library.Char_ord" "HOL-Library.List_Lexorder"
begin

section \<open>Chunks and group keys (internal/chunk/chunk.go)\<close>

subsection \<open>Data model\<close>

type_synonym byte = "8 word"

text \<open>\<^verbatim>\<open>type ChunkType uint8\<close>, with the ten constants declared by \<^verbatim>\<open>iota\<close>.\<close>

type_synonym ChunkType = "8 word"

definition CMessages :: ChunkType where "CMessages = 0"
definition CThreadMessages :: ChunkType where "CThreadMessages = 1"
definition CFiles :: ChunkType where "CFiles = 2"
definition CUsers :: ChunkType where "CUsers = 3"
definition CChannels :: ChunkType where "CChannels = 4"
definition CChannelInfo :: ChunkType where "CChannelInfo = 5"
definition CWorkspaceInfo :: ChunkType where "CWorkspaceInfo = 6"
definition CChannelUsers :: ChunkType where "CChannelUsers = 7"
definition CStarredItems :: ChunkType where "CStarredItems = 8"
definition CBookmarks :: ChunkType where "CBookmarks = 9"

text \<open>
  The errors of the package and of the stream underneath it. \<open>EOF\<close> is \<^verbatim>\<open>io.EOF\<close>;
  \<open>ErrDecodeAt off e\<close> is the wrapping
  \<^verbatim>\<open>fmt.Errorf("failed to decode chunk at offset %d: %w", off, e)\<close>;
  \<open>PanicNilDeref\<close> is the run-time panic of a field read through a nil pointer.
\<close>

datatype error =
    ErrNotFound
  | ErrExhausted
  | ErrUnsupChunkType
  | EOF
  | ErrUnexpectedEOF
  | ErrSyntax
  | ErrSeek
  | ErrDecodeAt int error
  | PanicNilDeref

text \<open>\<^verbatim>\<open>errors.Is\<close>: the error itself, or an error it wraps with \<^verbatim>\<open>%w\<close>.\<close>

fun errors_Is :: "error \<Rightarrow> error \<Rightarrow> bool" where
  "errors_Is (ErrDecodeAt off e) t = (ErrDecodeAt off e = t \<or> errors_Is e t)"
| "errors_Is e t = (e = t)"

text \<open>
  The payload types of the Slack client library, reduced to the fields the package reads
  and one field standing for the rest of the value.
\<close>

record Message =
  msg_Timestamp :: string
  msg_ThreadTimestamp :: string
  msg_Text :: string

record File =
  file_ID :: string
  file_Name :: string

record User =
  user_ID :: string
  user_Name :: string

record SlackChannel =
  chan_ID :: string
  chan_Name :: string

record Chunk =
  Type :: ChunkType
  Timestamp :: int
  ChannelID :: string
  Count :: int
  ThreadTS :: string
  IsLast :: bool
  NumThreads :: int
  Channel :: "SlackChannel option"
  ChannelUsers :: "string list"
  Parent :: "Message option"
  Messages :: "Message list"
  Files :: "File list"
  Users :: "User list"
  Channels :: "SlackChannel list"
  WorkspaceInfo :: "string option"
  StarredItems :: "string list"
  Bookmarks :: "string list"

text \<open>The zero value of \<^verbatim>\<open>Chunk\<close>, what \<^verbatim>\<open>var chunk Chunk\<close> holds.\<close>

definition zero_Chunk :: Chunk where
  "zero_Chunk = \<lparr>Type = 0, Timestamp = 0, ChannelID = [], Count = 0, ThreadTS = [],
     IsLast = False, NumThreads = 0, Channel = None, ChannelUsers = [], Parent = None,
     Messages = [], Files = [], Users = [], Channels = [], WorkspaceInfo = None,
     StarredItems = [], Bookmarks = []\<rparr>"

subsection \<open>Group keys\<close>

type_synonym GroupID = string

definition userChunkID :: GroupID where "userChunkID = ''lusr''"
definition channelChunkID :: GroupID where "channelChunkID = ''lch''"
definition starredChunkID :: GroupID where "starredChunkID = ''ls''"
definition wspInfoChunkID :: GroupID where "wspInfoChunkID = ''iw''"

definition threadPrefix :: string where "threadPrefix = ''t''"
definition filePrefix :: string where "filePrefix = ''f''"
definition chanInfoPrefix :: string where "chanInfoPrefix = ''ic''"
definition bookmarkPrefix :: string where "bookmarkPrefix = ''lb''"
definition chanUsersPrefix :: string where "chanUsersPrefix = ''lcu''"

text \<open>\<^verbatim>\<open>strings.Join(ids, sep)\<close>.\<close>

fun Join :: "string list \<Rightarrow> string \<Rightarrow> string" where
  "Join [] sep = []"
| "Join [x] sep = x"
| "Join (x # y # ys) sep = x @ sep @ Join (y # ys) sep"

text \<open>\<^verbatim>\<open>func id(prefix string, ids ...string) GroupID\<close>: the prefix, then the ids joined by colons.\<close>

definition id_gid :: "string \<Rightarrow> string list \<Rightarrow> GroupID" where
  "id_gid pfx ids = pfx @ Join ids '':''"

definition threadID :: "string \<Rightarrow> string \<Rightarrow> GroupID" where
  "threadID channelID threadTS = id_gid threadPrefix [channelID, threadTS]"

definition channelInfoID :: "string \<Rightarrow> GroupID" where
  "channelInfoID channelID = id_gid chanInfoPrefix [channelID]"

definition channelUsersID :: "string \<Rightarrow> GroupID" where
  "channelUsersID channelID = id_gid chanUsersPrefix [channelID]"

text \<open>
  \<^verbatim>\<open>ChunkType.String\<close> is generated by \<^verbatim>\<open>stringer -type=ChunkType -trimprefix=C\<close> and its
  file is not among the sources, so \<open>ID\<close> takes it as the parameter \<open>S\<close>.
  \<open>ChunkType_String\<close> is the instance that tool generates for the ten constants: the
  name without its prefix, and \<^verbatim>\<open>ChunkType(n)\<close> with \<open>n\<close> in decimal for any other value.
\<close>

type_synonym stringer = "ChunkType \<Rightarrow> string"

definition digit_char :: "nat \<Rightarrow> char" where
  "digit_char n = char_of (48 + n)"

definition Itoa_byte :: "nat \<Rightarrow> string" where
  "Itoa_byte n =
     (if n < 10 then [digit_char n]
      else if n < 100 then [digit_char (n div 10), digit_char (n mod 10)]
      else [digit_char (n div 100), digit_char ((n div 10) mod 10), digit_char (n mod 10)])"

definition ChunkType_String :: stringer where
  "ChunkType_String t =
     (if t = CMessages then ''Messages''
      else if t = CThreadMessages then ''ThreadMessages''
      else if t = CFiles then ''Files''
      else if t = CUsers then ''Users''
      else if t = CChannels then ''Channels''
      else if t = CChannelInfo then ''ChannelInfo''
      else if t = CWorkspaceInfo then ''WorkspaceInfo''
      else if t = CChannelUsers then ''ChannelUsers''
      else if t = CStarredItems then ''StarredItems''
      else if t = CBookmarks then ''Bookmarks''
      else ''ChunkType('' @ Itoa_byte (unat t) @ '')'')"

text \<open>
  \<^verbatim>\<open>func (c *Chunk) ID() GroupID\<close>. \<^verbatim>\<open>c.Parent\<close> is a pointer: reading a field through it
  when it is nil panics. A type outside the switch falls through to the last
  \<^verbatim>\<open>return\<close>, which formats a key; the function has no error result.
\<close>

definition ID :: "stringer \<Rightarrow> Chunk \<Rightarrow> error + GroupID" where
  "ID S c =
     (if Type c = CMessages then Inr (ChannelID c)
      else if Type c = CThreadMessages then
        (case Parent c of None \<Rightarrow> Inl PanicNilDeref
         | Some par \<Rightarrow> Inr (threadID (ChannelID c) (msg_ThreadTimestamp par)))
      else if Type c = CFiles then
        (case Parent c of None \<Rightarrow> Inl PanicNilDeref
         | Some par \<Rightarrow> Inr (id_gid filePrefix [ChannelID c, msg_Timestamp par]))
      else if Type c = CChannelInfo then Inr (channelInfoID (ChannelID c))
      else if Type c = CChannelUsers then Inr (channelUsersID (ChannelID c))
      else if Type c = CUsers then Inr userChunkID
      else if Type c = CChannels then Inr channelChunkID
      else if Type c = CWorkspaceInfo then Inr wspInfoChunkID
      else if Type c = CStarredItems then Inr starredChunkID
      else if Type c = CBookmarks then Inr (id_gid bookmarkPrefix [ChannelID c])
      else Inr (''<unknown:'' @ S (Type c) @ ''>''))"

text \<open>The set of chunk types the switch of \<open>ID\<close> enumerates.\<close>

definition supported :: "ChunkType \<Rightarrow> bool" where
  "supported t \<longleftrightarrow> t \<in> {CMessages, CThreadMessages, CFiles, CUsers, CChannels,
     CChannelInfo, CWorkspaceInfo, CChannelUsers, CStarredItems, CBookmarks}"

text \<open>Sample values: a message and the records of the spec's scenarios.\<close>

definition mk_msg :: "string \<Rightarrow> string \<Rightarrow> Message" where
  "mk_msg ts thread_ts = \<lparr>msg_Timestamp = ts, msg_ThreadTimestamp = thread_ts, msg_Text = []\<rparr>"

definition thread_chunk_B :: Chunk where
  "thread_chunk_B = zero_Chunk\<lparr>Type := CThreadMessages, ChannelID := ''C1'',
     Parent := Some (mk_msg ''1000.001'' ''1000.001''),
     Messages := [mk_msg ''1000.002'' ''1000.001'', mk_msg ''1000.003'' ''1000.001'']\<rparr>"

section \<open>The stream and the index (internal/chunk/player.go)\<close>

subsection \<open>The seekable stream and the JSON decoder\<close>

text \<open>
  An \<^verbatim>\<open>io.ReadSeeker\<close> as \<^verbatim>\<open>bytes.Reader\<close> and \<^verbatim>\<open>os.File\<close> implement it: the bytes, the
  read position, and the name the \<^verbatim>\<open>namer\<close> interface reports when the stream is a file.
  \<^verbatim>\<open>Seek(off, io.SeekStart)\<close> fails on a negative offset and otherwise moves the position,
  also beyond the end.
\<close>

record ReadSeeker =
  rs_data :: "byte list"
  rs_pos :: int
  rs_name :: "string option"

definition Seek :: "ReadSeeker \<Rightarrow> int \<Rightarrow> error + ReadSeeker" where
  "Seek r off = (if off < 0 then Inl ErrSeek else Inr (r\<lparr>rs_pos := off\<rparr>))"

text \<open>
  \<^verbatim>\<open>encoding/json\<close> is a library: what one \<^verbatim>\<open>Decode\<close> call makes of the bytes in front of
  it is the parameter \<open>D\<close>, which maps the unread input to the decoded value or an
  error, and to the number of bytes up to the end of the value. The JSON literal
  \<^verbatim>\<open>null\<close> decodes to \<open>None\<close>: into a \<^verbatim>\<open>*Chunk\<close> it gives the nil pointer, into a
  \<^verbatim>\<open>Chunk\<close> it leaves the zero value.
\<close>

type_synonym json_decode = "byte list \<Rightarrow> (error + Chunk option) \<times> nat"

record Decoder =
  dec_input :: "byte list"
  dec_off :: nat

definition NewDecoder :: "ReadSeeker \<Rightarrow> Decoder" where
  "NewDecoder r = \<lparr>dec_input = drop (nat (rs_pos r)) (rs_data r), dec_off = 0\<rparr>"

definition InputOffset :: "Decoder \<Rightarrow> int" where
  "InputOffset dec = int (dec_off dec)"

definition Decode :: "json_decode \<Rightarrow> Decoder \<Rightarrow> (error + Chunk option) \<times> Decoder" where
  "Decode D dec =
     (case D (drop (dec_off dec) (dec_input dec)) of
        (res, n) \<Rightarrow> (res, dec\<lparr>dec_off := dec_off dec + n\<rparr>))"

definition into_value :: "Chunk option \<Rightarrow> Chunk" where
  "into_value v = (case v of None \<Rightarrow> zero_Chunk | Some c \<Rightarrow> c)"

text \<open>The stream after a decoder has read from it; every later read seeks first.\<close>

definition read_by :: "ReadSeeker \<Rightarrow> Decoder \<Rightarrow> ReadSeeker" where
  "read_by r dec = r\<lparr>rs_pos := rs_pos r + int (dec_off dec)\<rparr>"

subsection \<open>The index\<close>

text \<open>
  \<^verbatim>\<open>type index map[string][]int64\<close>, as an association list with distinct keys;
  \<open>idx_get\<close> is the read \<^verbatim>\<open>idx[k]\<close>, nil for an absent key.
\<close>

type_synonym index = "(GroupID \<times> int list) list"

definition idx_get :: "index \<Rightarrow> GroupID \<Rightarrow> int list" where
  "idx_get ix k = (case map_of ix k of None \<Rightarrow> [] | Some os \<Rightarrow> os)"

definition idx_append :: "index \<Rightarrow> GroupID \<Rightarrow> int \<Rightarrow> index" where
  "idx_append ix k off = AList.update k (idx_get ix k @ [off]) ix"

text \<open>
  \<^verbatim>\<open>indexRecords\<close>: the loop records the offset, decodes one chunk, and appends the
  offset under the chunk's key, until the decoder reports \<^verbatim>\<open>io.EOF\<close>.
\<close>

partial_function (option) indexRecords_loop ::
  "stringer \<Rightarrow> json_decode \<Rightarrow> Decoder \<Rightarrow> index \<Rightarrow> (error + index) option" where
  "indexRecords_loop S D dec ix =
     (let offset = InputOffset dec in
      case Decode D dec of
        (Inl err, dec') \<Rightarrow> if err = EOF then Some (Inr ix) else Some (Inl err)
      | (Inr v, dec') \<Rightarrow>
          (case ID S (into_value v) of
             Inl e \<Rightarrow> Some (Inl e)
           | Inr k \<Rightarrow> indexRecords_loop S D dec' (idx_append ix k offset)))"

definition indexRecords :: "stringer \<Rightarrow> json_decode \<Rightarrow> Decoder \<Rightarrow> (error + index) option" where
  "indexRecords S D dec = indexRecords_loop S D dec []"

subsection \<open>The player\<close>

record Player =
  rs :: ReadSeeker
  idx :: index
  pointer :: "GroupID \<rightharpoonup> nat"
  lastOffset :: int

definition NewPlayer :: "stringer \<Rightarrow> json_decode \<Rightarrow> ReadSeeker \<Rightarrow> (error + Player) option" where
  "NewPlayer S D r =
     (case indexRecords S D (NewDecoder r) of
        None \<Rightarrow> None
      | Some (Inl err) \<Rightarrow> Some (Inl err)
      | Some (Inr ix) \<Rightarrow>
          (case Seek r 0 of
             Inl err \<Rightarrow> Some (Inl err)
           | Inr r' \<Rightarrow> Some (Inr \<lparr>rs = r', idx = ix, pointer = Map.empty, lastOffset = 0\<rparr>)))"

definition Offset :: "Player \<Rightarrow> int" where
  "Offset p = lastOffset p"

text \<open>
  \<^verbatim>\<open>tryGetChunk\<close>. The result carries the player as the call leaves it: the cursor table
  gets the entry 0 for a key seen for the first time, \<^verbatim>\<open>lastOffset\<close> is stored before the
  seek, and the cursor is advanced only after a successful decode.
\<close>

definition tryGetChunk :: "json_decode \<Rightarrow> Player \<Rightarrow> GroupID \<Rightarrow> (error + Chunk) \<times> Player" where
  "tryGetChunk D p k =
     (case map_of (idx p) k of
        None \<Rightarrow> (Inl ErrNotFound, p)
      | Some offsets \<Rightarrow>
          (let ptr = (case pointer p k of None \<Rightarrow> 0 | Some n \<Rightarrow> n);
               p1 = (case pointer p k of None \<Rightarrow> p\<lparr>pointer := (pointer p)(k \<mapsto> 0)\<rparr>
                     | Some n \<Rightarrow> p)
           in if ptr \<ge> length offsets then (Inl EOF, p1)
              else
                (let off = offsets ! ptr; p2 = p1\<lparr>lastOffset := off\<rparr> in
                 case Seek (rs p2) off of
                   Inl err \<Rightarrow> (Inl err, p2)
                 | Inr r \<Rightarrow>
                     (case Decode D (NewDecoder r) of
                        (Inl err, dec) \<Rightarrow> (Inl (ErrDecodeAt off err), p2\<lparr>rs := read_by r dec\<rparr>)
                      | (Inr v, dec) \<Rightarrow>
                          (Inr (into_value v),
                           p2\<lparr>rs := read_by r dec, pointer := (pointer p2)(k \<mapsto> ptr + 1)\<rparr>)))))"

definition hasMore :: "Player \<Rightarrow> GroupID \<Rightarrow> bool" where
  "hasMore p k =
     (case map_of (idx p) k of
        None \<Rightarrow> False
      | Some offsets \<Rightarrow> (case pointer p k of None \<Rightarrow> True | Some ptr \<Rightarrow> ptr < length offsets))"

text \<open>The typed accessors project one payload field out of the next chunk.\<close>

definition Player_Messages :: "json_decode \<Rightarrow> Player \<Rightarrow> string \<Rightarrow> (error + Message list) \<times> Player" where
  "Player_Messages D p channelID =
     (case tryGetChunk D p channelID of
        (Inl err, p') \<Rightarrow> (Inl err, p')
      | (Inr c, p') \<Rightarrow> (Inr (Messages c), p'))"

definition Player_Users :: "json_decode \<Rightarrow> Player \<Rightarrow> (error + User list) \<times> Player" where
  "Player_Users D p =
     (case tryGetChunk D p userChunkID of
        (Inl err, p') \<Rightarrow> (Inl err, p')
      | (Inr c, p') \<Rightarrow> (Inr (Users c), p'))"

definition Player_Channels :: "json_decode \<Rightarrow> Player \<Rightarrow> (error + SlackChannel list) \<times> Player" where
  "Player_Channels D p =
     (case tryGetChunk D p channelChunkID of
        (Inl err, p') \<Rightarrow> (Inl err, p')
      | (Inr c, p') \<Rightarrow> (Inr (Channels c), p'))"

definition Player_Thread ::
  "json_decode \<Rightarrow> Player \<Rightarrow> string \<Rightarrow> string \<Rightarrow> (error + Message list) \<times> Player" where
  "Player_Thread D p channelID threadTS =
     (case tryGetChunk D p (threadID channelID threadTS) of
        (Inl err, p') \<Rightarrow> (Inl err, p')
      | (Inr c, p') \<Rightarrow> (Inr (Messages c), p'))"

text \<open>
  \<^verbatim>\<open>ChannelInfo\<close> calls \<^verbatim>\<open>channelInfoID(id, false)\<close>; the \<^verbatim>\<open>channelInfoID\<close> of chunk.go takes
  the channel ID alone, and that is the key used here.
\<close>

definition Player_ChannelInfo ::
  "json_decode \<Rightarrow> Player \<Rightarrow> string \<Rightarrow> (error + SlackChannel option) \<times> Player" where
  "Player_ChannelInfo D p ch =
     (case tryGetChunk D p (channelInfoID ch) of
        (Inl err, p') \<Rightarrow> (Inl err, p')
      | (Inr c, p') \<Rightarrow> (Inr (Channel c), p'))"

definition HasMoreMessages :: "Player \<Rightarrow> string \<Rightarrow> bool" where
  "HasMoreMessages p channelID = hasMore p channelID"

definition HasMoreThreads :: "Player \<Rightarrow> string \<Rightarrow> string \<Rightarrow> bool" where
  "HasMoreThreads p channelID threadTS = hasMore p (threadID channelID threadTS)"

definition HasMoreChannels :: "Player \<Rightarrow> bool" where
  "HasMoreChannels p = hasMore p channelChunkID"

definition HasUsers :: "Player \<Rightarrow> bool" where
  "HasUsers p = hasMore p userChunkID"

text \<open>
  \<^verbatim>\<open>Reset\<close> replaces the cursor table before it seeks, so the table is empty also when the
  seek fails.
\<close>

definition Reset :: "Player \<Rightarrow> error option \<times> Player" where
  "Reset p =
     (let p1 = p\<lparr>pointer := Map.empty\<rparr> in
      case Seek (rs p1) 0 of
        Inl err \<Rightarrow> (Some err, p1)
      | Inr r \<Rightarrow> (None, p1\<lparr>rs := r\<rparr>))"

text \<open>
  \<^verbatim>\<open>allForID\<close>: after a reset, the loop appends \<^verbatim>\<open>fn(chunk)\<close> for each chunk of the key
  until \<^verbatim>\<open>tryGetChunk\<close> returns exactly \<^verbatim>\<open>io.EOF\<close>; any other error ends it.
\<close>

partial_function (option) allForID_loop ::
  "json_decode \<Rightarrow> Player \<Rightarrow> GroupID \<Rightarrow> (Chunk \<Rightarrow> 'a list) \<Rightarrow> 'a list
     \<Rightarrow> ((error + 'a list) \<times> Player) option" where
  "allForID_loop D p k fn m =
     (case tryGetChunk D p k of
        (Inl err, p') \<Rightarrow> if err = EOF then Some (Inr m, p') else Some (Inl err, p')
      | (Inr c, p') \<Rightarrow> allForID_loop D p' k fn (m @ fn c))"

definition allForID ::
  "json_decode \<Rightarrow> Player \<Rightarrow> GroupID \<Rightarrow> (Chunk \<Rightarrow> 'a list) \<Rightarrow> ((error + 'a list) \<times> Player) option" where
  "allForID D p k fn =
     (case Reset p of
        (Some err, p1) \<Rightarrow> Some (Inl err, p1)
      | (None, p1) \<Rightarrow> allForID_loop D p1 k fn [])"

definition AllMessages :: "json_decode \<Rightarrow> Player \<Rightarrow> string \<Rightarrow> ((error + Message list) \<times> Player) option" where
  "AllMessages D p channelID = allForID D p channelID Messages"

definition AllThreadMessages ::
  "json_decode \<Rightarrow> Player \<Rightarrow> string \<Rightarrow> string \<Rightarrow> ((error + Message list) \<times> Player) option" where
  "AllThreadMessages D p channelID threadTS = allForID D p (threadID channelID threadTS) Messages"

definition AllUsers :: "json_decode \<Rightarrow> Player \<Rightarrow> ((error + User list) \<times> Player) option" where
  "AllUsers D p = allForID D p userChunkID Users"

definition AllChannels :: "json_decode \<Rightarrow> Player \<Rightarrow> ((error + SlackChannel list) \<times> Player) option" where
  "AllChannels D p = allForID D p channelChunkID Channels"

text \<open>
  \<^verbatim>\<open>AllChannelIDs\<close>: the keys of the index without a colon and not starting with
  \<^verbatim>\<open>"ci"\<close>, sorted by \<^verbatim>\<open>sort.Strings\<close>.
\<close>

definition AllChannelIDs :: "Player \<Rightarrow> string list" where
  "AllChannelIDs p =
     sort (filter (\<lambda>k. \<not> (CHR '':'' \<in> set k) \<and> \<not> prefix ''ci'' k) (map fst (idx p)))"

text \<open>
  \<^verbatim>\<open>ForEach\<close>: reset, then one decoder over the whole stream; the callback gets each decoded
  \<^verbatim>\<open>*Chunk\<close> and updates what it has captured (\<open>acc\<close>). The deferred seek leaves the
  stream at the start.
\<close>

partial_function (option) ForEach_loop ::
  "json_decode \<Rightarrow> Decoder \<Rightarrow> (Chunk option \<Rightarrow> 'a \<Rightarrow> error + 'a) \<Rightarrow> 'a \<Rightarrow> (error + 'a) option" where
  "ForEach_loop D dec fn acc =
     (case Decode D dec of
        (Inl err, dec') \<Rightarrow> if err = EOF then Some (Inr acc) else Some (Inl err)
      | (Inr v, dec') \<Rightarrow>
          (case fn v acc of
             Inl e \<Rightarrow> Some (Inl e)
           | Inr acc' \<Rightarrow> ForEach_loop D dec' fn acc'))"

definition ForEach ::
  "json_decode \<Rightarrow> Player \<Rightarrow> (Chunk option \<Rightarrow> 'a \<Rightarrow> error + 'a) \<Rightarrow> 'a \<Rightarrow> ((error + 'a) \<times> Player) option" where
  "ForEach D p fn acc =
     (case Reset p of
        (Some err, p1) \<Rightarrow> Some (Inl err, p1)
      | (None, p1) \<Rightarrow>
          (case ForEach_loop D (NewDecoder (rs p1)) fn acc of
             None \<Rightarrow> None
           | Some res \<Rightarrow>
               Some (res, case Seek (rs p1) 0 of Inl err \<Rightarrow> p1 | Inr r \<Rightarrow> p1\<lparr>rs := r\<rparr>)))"

declare indexRecords_loop.simps [code]
declare allForID_loop.simps [code]
declare ForEach_loop.simps [code]

section \<open>Observations on the player\<close>

text \<open>
  The position of a key's cursor: an absent entry of the cursor table stands for 0, as the
  read \<^verbatim>\<open>ptr, ok := p.pointer[id]\<close> has it.
\<close>

definition cursor_pos :: "Player \<Rightarrow> GroupID \<Rightarrow> nat" where
  "cursor_pos p k = (case pointer p k of None \<Rightarrow> 0 | Some n \<Rightarrow> n)"

text \<open>The offset the next \<open>tryGetChunk\<close> for a key would seek to, if there is one.\<close>

definition next_offset :: "Player \<Rightarrow> GroupID \<Rightarrow> int option" where
  "next_offset p k =
     (case map_of (idx p) k of
        None \<Rightarrow> None
      | Some offsets \<Rightarrow>
          if cursor_pos p k < length offsets then Some (offsets ! cursor_pos p k) else None)"

text \<open>\<open>n\<close> successive calls of \<open>tryGetChunk\<close> for one key: their results, and the player after them.\<close>

fun consume :: "json_decode \<Rightarrow> Player \<Rightarrow> GroupID \<Rightarrow> nat \<Rightarrow> (error + Chunk) list \<times> Player" where
  "consume D p k 0 = ([], p)"
| "consume D p k (Suc n) =
     (case tryGetChunk D p k of
        (r, p') \<Rightarrow> (case consume D p' k n of (res, p'') \<Rightarrow> (r # res, p'')))"

section \<open>Sample records, a sample decoder and sample players\<close>

definition unknown_chunk :: Chunk where
  "unknown_chunk = zero_Chunk\<lparr>Type := 10\<rparr>"

definition chunk_m1 :: Chunk where
  "chunk_m1 = zero_Chunk\<lparr>Type := CMessages, ChannelID := ''C1'', Count := 1,
     Messages := [mk_msg ''1.0'' []]\<rparr>"

definition chunk_m2 :: Chunk where
  "chunk_m2 = zero_Chunk\<lparr>Type := CMessages, ChannelID := ''C1'', Count := 1,
     Messages := [mk_msg ''2.0'' []]\<rparr>"

definition chunk_f1 :: Chunk where
  "chunk_f1 = zero_Chunk\<lparr>Type := CFiles, ChannelID := ''C1'', Count := 1,
     Parent := Some (mk_msg ''1.0'' []),
     Files := [\<lparr>file_ID = ''F1'', file_Name = ''a.txt''\<rparr>]\<rparr>"

text \<open>
  A decoder for a toy log format, standing in for the JSON decoder in closed examples:
  a record is one byte naming a sample chunk, records are separated by newlines (byte 10),
  and leading newlines are skipped as JSON skips white space.
\<close>

fun sample_decode :: json_decode where
  "sample_decode [] = (Inl EOF, 0)"
| "sample_decode (b # bs) =
     (if b = 10 then (case sample_decode bs of (res, n) \<Rightarrow> (res, Suc n))
      else if b = 1 then (Inr (Some chunk_m1), 1)
      else if b = 2 then (Inr (Some chunk_m2), 1)
      else if b = 3 then (Inr (Some chunk_f1), 1)
      else if b = 4 then (Inr (Some thread_chunk_B), 1)
      else (Inl ErrSyntax, 0))"

definition sample_log :: "byte list" where
  "sample_log = [1, 10, 2, 10, 3, 10]"

definition sample_rs :: ReadSeeker where
  "sample_rs = \<lparr>rs_data = sample_log, rs_pos = 0, rs_name = Some ''rec.jsonl''\<rparr>"

definition sample_player :: Player where
  "sample_player = \<lparr>rs = sample_rs, idx = [(''C1'', [0, 1]), (''fC1:1.0'', [3])],
     pointer = Map.empty, lastOffset = 0\<rparr>"

text \<open>The sample player after both records of C1 have been read.\<close>

definition exhausted_player :: Player where
  "exhausted_player = sample_player\<lparr>pointer := [''C1'' \<mapsto> 2], lastOffset := 1\<rparr>"

text \<open>A player whose index points behind the last record of the sample log.\<close>

definition corrupt_player :: Player where
  "corrupt_player = sample_player\<lparr>idx := [(''C1'', [5])]\<rparr>"

section \<open>The replay server (package chunktest)\<close>

text \<open>\<^verbatim>\<open>strconv.FormatInt(i, 10)\<close>.\<close>

fun digits :: "nat \<Rightarrow> string" where
  "digits n = (if n < 10 then [digit_char n] else digits (n div 10) @ [digit_char (n mod 10)])"

declare digits.simps [simp del]

definition FormatInt :: "int \<Rightarrow> string" where
  "FormatInt i = (if i < 0 then CHR ''-'' # digits (nat (- i)) else digits (nat i))"

text \<open>
  The form values a handler reads, and what it writes: a status with a text body
  (\<^verbatim>\<open>http.NotFound\<close>, \<^verbatim>\<open>http.Error\<close>) or, with status 200, a JSON envelope. The envelope
  has the fields of the response structs that the handlers set; \<open>ErrorText e\<close> is the
  text \<^verbatim>\<open>e.Error()\<close>. A handler that dereferences a nil pointer panics.
\<close>

record Request =
  req_channel :: string
  req_ts :: string

datatype errtext = NoText | Text string | ErrorText error

record Envelope =
  env_Ok :: bool
  env_Error :: errtext
  env_HasMore :: bool
  env_NextCursor :: string
  env_Messages :: "Message list"
  env_Channel :: "SlackChannel option"
  env_Channels :: "SlackChannel list"
  env_Users :: "User list"

datatype Response =
    HTTP_NotFound
  | HTTP_BadRequest string
  | HTTP_InternalServerError error
  | HTTP_OK Envelope
  | Handler_Panic error

definition zero_Envelope :: Envelope where
  "zero_Envelope = \<lparr>env_Ok = False, env_Error = NoText, env_HasMore = False,
     env_NextCursor = [], env_Messages = [], env_Channel = None, env_Channels = [],
     env_Users = []\<rparr>"

definition handleConversationsHistory :: "json_decode \<Rightarrow> Player \<Rightarrow> Request \<Rightarrow> Response \<times> Player" where
  "handleConversationsHistory D p req =
     (let channel = req_channel req in
      if channel = [] then (HTTP_NotFound, p)
      else
        (case Player_Messages D p channel of
           (Inl err, p') \<Rightarrow>
             if errors_Is err ErrNotFound then (HTTP_NotFound, p')
             else if errors_Is err EOF then
               (HTTP_OK (zero_Envelope\<lparr>env_HasMore := False, env_Ok := True\<rparr>), p')
             else (HTTP_InternalServerError err, p')
         | (Inr msg, p') \<Rightarrow>
             (HTTP_OK (zero_Envelope\<lparr>env_HasMore := HasMoreMessages p' channel,
                env_Messages := msg, env_NextCursor := FormatInt (Offset p'),
                env_Ok := True\<rparr>), p')))"

definition handleConversationsReplies :: "json_decode \<Rightarrow> Player \<Rightarrow> Request \<Rightarrow> Response \<times> Player" where
  "handleConversationsReplies D p req =
     (let timestamp = req_ts req; channel = req_channel req in
      if timestamp = [] then (HTTP_BadRequest ''ts is required'', p)
      else
        (case Player_Thread D p channel timestamp of
           (Inl err, p') \<Rightarrow>
             (HTTP_OK (zero_Envelope\<lparr>env_HasMore := HasMoreThreads p' channel timestamp,
                env_Messages := [], env_NextCursor := FormatInt (Offset p'),
                env_Ok := False,
                env_Error := (if errors_Is err EOF
                  then Text (''thread_not_found['' @ channel @ '':'' @ timestamp @ '']'')
                  else ErrorText err)\<rparr>), p')
         | (Inr msg, p') \<Rightarrow>
             (HTTP_OK (zero_Envelope\<lparr>env_HasMore := HasMoreThreads p' channel timestamp,
                env_Messages := msg, env_NextCursor := FormatInt (Offset p'),
                env_Ok := True\<rparr>), p')))"

definition handleConversationsInfo :: "json_decode \<Rightarrow> Player \<Rightarrow> Request \<Rightarrow> Response \<times> Player" where
  "handleConversationsInfo D p req =
     (let channel = req_channel req in
      if channel = [] then (HTTP_BadRequest ''channel is required'', p)
      else
        (case Player_ChannelInfo D p channel of
           (Inl err, p') \<Rightarrow>
             if errors_Is err ErrNotFound then (HTTP_NotFound, p')
             else (HTTP_InternalServerError err, p')
         | (Inr ci, p') \<Rightarrow>
             (case ci of
                None \<Rightarrow> (Handler_Panic PanicNilDeref, p')
              | Some c \<Rightarrow> (HTTP_OK (zero_Envelope\<lparr>env_Ok := True, env_Channel := Some c\<rparr>), p'))))"

text \<open>
  \<^verbatim>\<open>handleConversationsList\<close> sets the cursor \<^verbatim>\<open>"moar"\<close>, and the empty cursor on \<^verbatim>\<open>io.EOF\<close>, in
  the \<^verbatim>\<open>ResponseMetadata\<close> of the embedded \<^verbatim>\<open>SlackResponse\<close>. \<^verbatim>\<open>channelResponse\<close> has a field of
  its own, \<^verbatim>\<open>Metadata\<close>, with the same JSON name \<^verbatim>\<open>response_metadata\<close>: the less nested field
  is the one that is encoded, and the handler never sets it, so the cursor of the body
  that is written is empty on both paths.
\<close>

definition handleConversationsList :: "json_decode \<Rightarrow> Player \<Rightarrow> Response \<times> Player" where
  "handleConversationsList D p =
     (case Player_Channels D p of
        (Inl err, p') \<Rightarrow>
          if errors_Is err EOF then
            (HTTP_OK (zero_Envelope\<lparr>env_Ok := False, env_NextCursor := []\<rparr>), p')
          else (HTTP_InternalServerError err, p')
      | (Inr c, p') \<Rightarrow>
          (HTTP_OK (zero_Envelope\<lparr>env_Ok := True, env_NextCursor := [],
             env_Channels := c\<rparr>), p'))"

definition handleUsersList :: "json_decode \<Rightarrow> Player \<Rightarrow> Response \<times> Player" where
  "handleUsersList D p =
     (case Player_Users D p of
        (Inl err, p') \<Rightarrow>
          if errors_Is err EOF then
            (HTTP_OK (zero_Envelope\<lparr>env_Ok := False, env_Error := Text ''pagination complete''\<rparr>), p')
          else (HTTP_InternalServerError err, p')
      | (Inr u, p') \<Rightarrow> (HTTP_OK (zero_Envelope\<lparr>env_Ok := True, env_Users := u\<rparr>), p'))"

text \<open>A player with an empty index, and one whose keys are all read to the end.\<close>

definition empty_player :: Player where
  "empty_player = sample_player\<lparr>idx := []\<rparr>"

definition drained_player :: Player where
  "drained_player = sample_player\<lparr>
     idx := [(''C1'', [0, 1]), (''tC1:1000.001'', [3]), (''lusr'', [5]), (''lch'', [7]),
       (''icC1'', [9])],
     pointer := [''C1'' \<mapsto> 2, ''tC1:1000.001'' \<mapsto> 1, ''lusr'' \<mapsto> 1, ''lch'' \<mapsto> 1,
       ''icC1'' \<mapsto> 1],
     lastOffset := 7\<rparr>"

text \<open>The sample player after the first of the two records of C1 has been read.\<close>

definition halfway_player :: Player where
  "halfway_player = sample_player\<lparr>pointer := [''C1'' \<mapsto> 1]\<rparr>"

text \<open>
  A player over a log with a ChannelInfo record of channel C1, a Messages record of C1 and
  a Users record: its index has the keys \<open>icC1\<close>, \<open>C1\<close> and \<open>lusr\<close>.
\<close>

definition listing_player :: Player where
  "listing_player = sample_player\<lparr>idx := [(''icC1'', [0]), (''C1'', [1]), (''lusr'', [3])]\<rparr>"

definition req_B :: Request where
  "req_B = \<lparr>req_channel = ''C1'', req_ts = ''1000.001''\<rparr>"

section \<open>Addressing fields\<close>

text \<open>The types whose key is a constant.\<close>

definition static_key_type :: "ChunkType \<Rightarrow> bool" where
  "static_key_type t \<longleftrightarrow> t \<in> {CUsers, CChannels, CWorkspaceInfo, CStarredItems}"

text \<open>
  The fields \<open>ID\<close> reads: the type, the channel ID, and the timestamp it takes from the
  parent message (the thread timestamp for ThreadMessages, the timestamp for Files).
\<close>

definition addressing :: "Chunk \<Rightarrow> ChunkType \<times> string \<times> string" where
  "addressing c =
     (Type c, ChannelID c,
      if Type c = CThreadMessages then
        (case Parent c of None \<Rightarrow> [] | Some par \<Rightarrow> msg_ThreadTimestamp par)
      else if Type c = CFiles then
        (case Parent c of None \<Rightarrow> [] | Some par \<Rightarrow> msg_Timestamp par)
      else [])"

text \<open>
  A channel ID as the service issues them: no colon in it, and its first character is none
  of the letters the key prefixes start with.
\<close>

definition plain_channel_id :: "string \<Rightarrow> bool" where
  "plain_channel_id ch \<longleftrightarrow>
     CHR '':'' \<notin> set ch \<and>
     (case ch of [] \<Rightarrow> True
      | x # _ \<Rightarrow> x \<notin> {CHR ''t'', CHR ''f'', CHR ''i'', CHR ''l''})"

text \<open>A Messages chunk whose channel ID is spelled like a thread key.\<close>

definition odd_channel_chunk :: Chunk where
  "odd_channel_chunk = zero_Chunk\<lparr>Type := CMessages, ChannelID := ''tC1:1000.001''\<rparr>"

text \<open>The chunk type a key belongs to, read off the key's prefix.\<close>

definition key_type :: "GroupID \<Rightarrow> ChunkType" where
  "key_type k =
     (if prefix ''t'' k then CThreadMessages
      else if prefix ''f'' k then CFiles
      else if prefix ''ic'' k then CChannelInfo
      else if prefix ''iw'' k then CWorkspaceInfo
      else if prefix ''lusr'' k then CUsers
      else if prefix ''lch'' k then CChannels
      else if prefix ''lcu'' k then CChannelUsers
      else if prefix ''ls'' k then CStarredItems
      else if prefix ''lb'' k then CBookmarks
      else CMessages)"

section \<open>Logs\<close>

text \<open>
  Modelled from the spec: the Recorder is not among the sources. It appends one
  self-delimited record per chunk, in capture order, and leaves a stream that is decodable
  record by record from offset 0. \<open>decodes_from D bs off vs\<close> says that decoding the bytes
  \<open>bs\<close> record by record from offset \<open>off\<close> yields the values \<open>vs\<close> and then the end of
  the stream; \<open>serialized D bs cs\<close> says that \<open>bs\<close> is such a log of the chunks \<open>cs\<close>.
\<close>

fun decodes_from :: "json_decode \<Rightarrow> byte list \<Rightarrow> nat \<Rightarrow> Chunk option list \<Rightarrow> bool" where
  "decodes_from D bs off [] = (fst (D (drop off bs)) = Inl EOF)"
| "decodes_from D bs off (v # vs) =
     (case D (drop off bs) of
        (Inl e, n) \<Rightarrow> False
      | (Inr v', n) \<Rightarrow> v' = v \<and> decodes_from D bs (off + n) vs)"

definition serialized :: "json_decode \<Rightarrow> byte list \<Rightarrow> Chunk list \<Rightarrow> bool" where
  "serialized D bs cs = decodes_from D bs 0 (map Some cs)"

text \<open>The offsets at which the records of such a log start.\<close>

fun offsets_from :: "json_decode \<Rightarrow> byte list \<Rightarrow> nat \<Rightarrow> 'a list \<Rightarrow> nat list" where
  "offsets_from D bs off [] = []"
| "offsets_from D bs off (v # vs) = off # offsets_from D bs (off + snd (D (drop off bs))) vs"

text \<open>A callback applied to the decoded values in order, stopping at its first error.\<close>

fun run_fn :: "('v \<Rightarrow> 'a \<Rightarrow> error + 'a) \<Rightarrow> 'v list \<Rightarrow> 'a \<Rightarrow> error + 'a" where
  "run_fn fn [] acc = Inr acc"
| "run_fn fn (v # vs) acc = (case fn v acc of Inl e \<Rightarrow> Inl e | Inr acc' \<Rightarrow> run_fn fn vs acc')"

section \<open>The state ledger\<close>

text \<open>
  Modelled from the spec: the package \<^verbatim>\<open>state\<close> (\<^verbatim>\<open>state.New\<close>, \<^verbatim>\<open>AddMessage\<close>, \<^verbatim>\<open>AddThread\<close>,
  \<^verbatim>\<open>AddFile\<close>) is not among the sources. The ledger holds three sets: the captured message
  timestamps per channel, the captured thread-message timestamps per (channel, thread),
  and the captured file identifiers per channel, each with its locally stored path, which
  is empty while unknown.
\<close>

record State =
  st_Filename :: string
  st_Messages :: "string \<Rightarrow> string set"
  st_Threads :: "string \<times> string \<Rightarrow> string set"
  st_Files :: "string \<Rightarrow> (string \<rightharpoonup> string)"

definition state_New :: "string \<Rightarrow> State" where
  "state_New name = \<lparr>st_Filename = name, st_Messages = (\<lambda>ch. {}), st_Threads = (\<lambda>k. {}),
     st_Files = (\<lambda>ch. Map.empty)\<rparr>"

definition AddMessage :: "State \<Rightarrow> string \<Rightarrow> string \<Rightarrow> State" where
  "AddMessage s channelID messageTS =
     s\<lparr>st_Messages := (st_Messages s)(channelID := insert messageTS (st_Messages s channelID))\<rparr>"

definition AddThread :: "State \<Rightarrow> string \<Rightarrow> string \<Rightarrow> string \<Rightarrow> State" where
  "AddThread s channelID threadTS ts =
     s\<lparr>st_Threads := (st_Threads s)((channelID, threadTS) :=
        insert ts (st_Threads s (channelID, threadTS)))\<rparr>"

definition AddFile :: "State \<Rightarrow> string \<Rightarrow> string \<Rightarrow> string \<Rightarrow> State" where
  "AddFile s channelID fileID path =
     s\<lparr>st_Files := (st_Files s)(channelID := (st_Files s channelID)(fileID \<mapsto> path))\<rparr>"

text \<open>\<^verbatim>\<open>filepath.Base\<close> with the separator \<^verbatim>\<open>/\<close>.\<close>

definition filepath_Base :: "string \<Rightarrow> string" where
  "filepath_Base path =
     (if path = [] then ''.''
      else
        (let p = rev (dropWhile (\<lambda>c. c = CHR ''/'') (rev path)) in
         if p = [] then ''/'' else rev (takeWhile (\<lambda>c. c \<noteq> CHR ''/'') (rev p))))"

text \<open>
  The callback of \<^verbatim>\<open>Player.State\<close>. The three \<^verbatim>\<open>if\<close> statements run in the source's order;
  \<^verbatim>\<open>ev.Parent.ThreadTimestamp\<close> is read inside the loop over the messages, so a
  ThreadMessages chunk without parent panics only when it has a message.
\<close>

definition State_fn :: "Chunk option \<Rightarrow> State \<Rightarrow> error + State" where
  "State_fn ev s =
     (case ev of
        None \<Rightarrow> Inr s
      | Some c \<Rightarrow>
          (let s1 = (if Type c = CFiles
                     then fold (\<lambda>f s'. AddFile s' (ChannelID c) (file_ID f) []) (Files c) s
                     else s)
           in case (if Type c = CThreadMessages then
                      (if Messages c = [] then Inr s1
                       else
                         (case Parent c of
                            None \<Rightarrow> Inl PanicNilDeref
                          | Some par \<Rightarrow>
                              Inr (fold (\<lambda>m s'. AddThread s' (ChannelID c)
                                     (msg_ThreadTimestamp par) (msg_Timestamp m)) (Messages c) s1)))
                    else Inr s1) of
                Inl e \<Rightarrow> Inl e
              | Inr s2 \<Rightarrow>
                  Inr (if Type c = CMessages
                       then fold (\<lambda>m s'. AddMessage s' (ChannelID c) (msg_Timestamp m)) (Messages c) s2
                       else s2)))"

definition Player_State :: "json_decode \<Rightarrow> Player \<Rightarrow> ((error + State) \<times> Player) option" where
  "Player_State D p =
     (let name = (case rs_name (rs p) of None \<Rightarrow> [] | Some n \<Rightarrow> filepath_Base n)
      in ForEach D p State_fn (state_New name))"

text \<open>
  What the spec says the ledger records, per decoded record: each message timestamp of a
  Messages chunk under its channel, each reply timestamp of a ThreadMessages chunk under
  its channel and parent thread, each file identifier of a Files chunk under its channel.
\<close>

definition chunk_messages :: "Chunk option \<Rightarrow> string \<Rightarrow> string set" where
  "chunk_messages v ch =
     (case v of
        None \<Rightarrow> {}
      | Some c \<Rightarrow>
          if Type c = CMessages \<and> ChannelID c = ch then msg_Timestamp ` set (Messages c) else {})"

definition chunk_threads :: "Chunk option \<Rightarrow> string \<times> string \<Rightarrow> string set" where
  "chunk_threads v k =
     (case v of
        None \<Rightarrow> {}
      | Some c \<Rightarrow>
          (case Parent c of
             None \<Rightarrow> {}
           | Some par \<Rightarrow>
               if Type c = CThreadMessages \<and> (ChannelID c, msg_ThreadTimestamp par) = k
               then msg_Timestamp ` set (Messages c) else {}))"

definition chunk_files :: "Chunk option \<Rightarrow> string \<Rightarrow> string set" where
  "chunk_files v ch =
     (case v of
        None \<Rightarrow> {}
      | Some c \<Rightarrow> if Type c = CFiles \<and> ChannelID c = ch then file_ID ` set (Files c) else {})"

definition ledger :: "string \<Rightarrow> Chunk option list \<Rightarrow> State" where
  "ledger name vs =
     \<lparr>st_Filename = name,
      st_Messages = (\<lambda>ch. \<Union>v\<in>set vs. chunk_messages v ch),
      st_Threads = (\<lambda>k. \<Union>v\<in>set vs. chunk_threads v k),
      st_Files = (\<lambda>ch fileID. if fileID \<in> (\<Union>v\<in>set vs. chunk_files v ch) then Some [] else None)\<rparr>"

text \<open>A ThreadMessages record with replies names its parent message.\<close>

definition has_parent :: "Chunk option \<Rightarrow> bool" where
  "has_parent v =
     (case v of
        None \<Rightarrow> True
      | Some c \<Rightarrow> \<not> (Type c = CThreadMessages \<and> Messages c \<noteq> [] \<and> Parent c = None))"

text \<open>What one decoded record adds to the ledger.\<close>

definition step :: "State \<Rightarrow> Chunk option \<Rightarrow> State" where
  "step s v =
     \<lparr>st_Filename = st_Filename s,
      st_Messages = (\<lambda>ch. st_Messages s ch \<union> chunk_messages v ch),
      st_Threads = (\<lambda>k. st_Threads s k \<union> chunk_threads v k),
      st_Files = (\<lambda>ch fileID. if fileID \<in> chunk_files v ch then Some [] else st_Files s ch fileID)\<rparr>"

text \<open>
  The index that a sequence of (offset, chunk) entries builds: each offset appended under
  the key of its chunk, in order.
\<close>

fun build :: "stringer \<Rightarrow> (nat \<times> Chunk) list \<Rightarrow> index \<Rightarrow> index" where
  "build S [] ix = ix"
| "build S (e # es) ix =
     build S es (case ID S (snd e) of Inl err \<Rightarrow> ix | Inr k \<Rightarrow> idx_append ix k (int (fst e)))"

section \<open>Group key derivation\<close>

lemmas ChunkType_defs =
  CMessages_def CThreadMessages_def CFiles_def CUsers_def CChannels_def
  CChannelInfo_def CWorkspaceInfo_def CChannelUsers_def CStarredItems_def CBookmarks_def

lemmas GroupID_defs =
  userChunkID_def channelChunkID_def starredChunkID_def wspInfoChunkID_def
  threadPrefix_def filePrefix_def chanInfoPrefix_def bookmarkPrefix_def chanUsersPrefix_def

lemma threadID_eq: "threadID c ts = ''t'' @ c @ '':'' @ ts"
  by (simp add: threadID_def id_gid_def threadPrefix_def)

text \<open>
  C3, as the code has it. The key of a ThreadMessages chunk with channel \<open>c\<close> whose parent
  message has thread timestamp \<open>ts\<close> is the prefix \<open>t\<close> directly followed by \<open>c\<close>, a colon
  and \<open>ts\<close>: the prefix is not followed by a colon of its own. The chunk of scenario B
  (channel C1, thread root 1000.001) has the key \<open>tC1:1000.001\<close>.
\<close>

theorem thread_key_derivation:
  "Type c = CThreadMessages \<Longrightarrow> Parent c = Some par \<Longrightarrow> ChannelID c = ch \<Longrightarrow>
     msg_ThreadTimestamp par = ts \<Longrightarrow> ID S c = Inr (''t'' @ ch @ '':'' @ ts)"
  by (simp add: ID_def ChunkType_defs threadID_eq)

theorem thread_key_derivation_witness:
  "Type thread_chunk_B = CThreadMessages
   \<and> Parent thread_chunk_B = Some (mk_msg ''1000.001'' ''1000.001'')
   \<and> ChannelID thread_chunk_B = ''C1''
   \<and> msg_ThreadTimestamp (mk_msg ''1000.001'' ''1000.001'') = ''1000.001''
   \<and> ID ChunkType_String thread_chunk_B = Inr ''tC1:1000.001''"
  using thread_key_derivation [of thread_chunk_B "mk_msg ''1000.001'' ''1000.001''"
      "''C1''" "''1000.001''" ChunkType_String]
  by (simp add: thread_chunk_B_def zero_Chunk_def mk_msg_def)

text \<open>
  C3 as the spec words it fails: the key of the scenario B chunk is not \<open>t:C1:1000.001\<close>.
\<close>

theorem thread_key_counterexample:
  "ID ChunkType_String thread_chunk_B \<noteq> Inr ''t:C1:1000.001''"
  by (simp add: ID_def ChunkType_defs threadID_eq thread_chunk_B_def zero_Chunk_def mk_msg_def)

text \<open>
  C5, as the code has it. For a chunk whose type is outside the ten supported types,
  \<open>ID\<close> returns no error: it returns the placeholder key \<open><unknown:T>\<close>, where \<open>T\<close> is
  the rendering of the type (\<open>ChunkType(10)\<close> for the value 10).
\<close>

theorem unsupported_type_key:
  "\<not> supported (Type c) \<Longrightarrow> ID S c = Inr (''<unknown:'' @ S (Type c) @ ''>'')"
  by (simp add: ID_def supported_def)

theorem unsupported_type_key_witness:
  "\<not> supported (Type unknown_chunk)
   \<and> ID ChunkType_String unknown_chunk = Inr ''<unknown:ChunkType(10)>''"
proof -
  have h: "\<not> supported (Type unknown_chunk)"
    by (simp add: supported_def unknown_chunk_def zero_Chunk_def ChunkType_defs)
  have "ChunkType_String (Type unknown_chunk) = ''ChunkType(10)''"
    by code_simp
  with unsupported_type_key [OF h, of ChunkType_String] h show ?thesis by simp
qed

text \<open>
  C5 as the spec words it fails: the chunk of type 10 has an unsupported type, and its
  derivation is a key, not an error.
\<close>

theorem unsupported_type_counterexample:
  "\<not> supported (Type unknown_chunk) \<and> \<not> isl (ID ChunkType_String unknown_chunk)"
  by (simp add: supported_def ID_def unknown_chunk_def zero_Chunk_def ChunkType_defs)

section \<open>Cursors\<close>

lemma tryGetChunk_idx: "tryGetChunk D p k = (r, p') \<Longrightarrow> idx p' = idx p"
  by (auto simp: tryGetChunk_def Let_def split: option.splits if_splits sum.splits prod.splits)

lemma tryGetChunk_err_cursor:
  "tryGetChunk D p k = (Inl e, p') \<Longrightarrow> cursor_pos p' k' = cursor_pos p k'"
  by (auto simp: tryGetChunk_def Let_def cursor_pos_def
      split: option.splits if_splits sum.splits prod.splits)

lemma tryGetChunk_ok_cursor:
  "tryGetChunk D p k = (Inr c, p') \<Longrightarrow>
     cursor_pos p' k' = (if k' = k then cursor_pos p k + 1 else cursor_pos p k')"
  by (auto simp: tryGetChunk_def Let_def cursor_pos_def
      split: option.splits if_splits sum.splits prod.splits)

lemma tryGetChunk_exhausted:
  "map_of (idx p) k = Some offs \<Longrightarrow> length offs \<le> cursor_pos p k \<Longrightarrow>
     fst (tryGetChunk D p k) = Inl EOF"
  by (auto simp: tryGetChunk_def Let_def cursor_pos_def split: option.splits)

lemma tryGetChunk_absent:
  "map_of (idx p) k = None \<Longrightarrow> fst (tryGetChunk D p k) = Inl ErrNotFound"
  by (simp add: tryGetChunk_def)

lemma consume_idx: "consume D p k n = (res, p') \<Longrightarrow> idx p' = idx p"
proof (induction n arbitrary: p res)
  case 0
  then show ?case by simp
next
  case (Suc n)
  then show ?case
    by (auto split: prod.splits dest: tryGetChunk_idx)
qed

lemma consume_all_ok_cursor:
  "consume D p k n = (res, p') \<Longrightarrow> list_all (\<lambda>r. \<not> isl r) res \<Longrightarrow>
     cursor_pos p' k = cursor_pos p k + n"
proof (induction n arbitrary: p res p')
  case 0
  then show ?case by simp
next
  case (Suc n)
  obtain r p1 where t: "tryGetChunk D p k = (r, p1)"
    by (cases "tryGetChunk D p k")
  obtain rs1 p2 where c: "consume D p1 k n = (rs1, p2)"
    by (cases "consume D p1 k n")
  from Suc.prems t c have eqs: "res = r # rs1" "p' = p2"
    by auto
  with Suc.prems(2) have ok: "\<not> isl r" "list_all (\<lambda>r. \<not> isl r) rs1"
    by auto
  from ok(1) obtain ch where "r = Inr ch"
    by (cases r) auto
  with t have "cursor_pos p1 k = cursor_pos p k + 1"
    using tryGetChunk_ok_cursor[of D p k ch p1 k] by simp
  moreover from Suc.IH[OF c ok(2)] have "cursor_pos p2 k = cursor_pos p1 k + n" .
  ultimately show ?case
    using eqs by simp
qed

text \<open>
  C2. Let \<open>k\<close> be a key of the index with offset list \<open>offs\<close> and an unused cursor. Once
  \<open>length offs\<close> successive reads of \<open>k\<close> have all succeeded, the next read of \<open>k\<close> fails
  with the exhaustion signal (\<open>io.EOF\<close>, which is what \<open>tryGetChunk\<close> returns for an
  exhausted key) and not with not-found. A read of a key absent from the index fails with
  not-found and not with the exhaustion signal, in any state of the player.
\<close>

theorem exhaustion_distinctness:
  assumes "map_of (idx p) k = Some offs"
    and "cursor_pos p k = 0"
    and "consume D p k (length offs) = (results, p')"
    and "list_all (\<lambda>r. \<not> isl r) results"
    and "map_of (idx q) k' = None"
  shows "fst (tryGetChunk D p' k) = Inl EOF \<and> fst (tryGetChunk D p' k) \<noteq> Inl ErrNotFound
    \<and> fst (tryGetChunk D q k') = Inl ErrNotFound \<and> fst (tryGetChunk D q k') \<noteq> Inl EOF"
proof -
  have "idx p' = idx p"
    using assms(3) by (rule consume_idx)
  moreover have "cursor_pos p' k = length offs"
    using consume_all_ok_cursor[OF assms(3,4)] assms(2) by simp
  ultimately have "fst (tryGetChunk D p' k) = Inl EOF"
    using assms(1) tryGetChunk_exhausted[of p' k offs D] by simp
  moreover have "fst (tryGetChunk D q k') = Inl ErrNotFound"
    using assms(5) by (rule tryGetChunk_absent)
  ultimately show ?thesis
    by simp
qed

theorem exhaustion_distinctness_witness:
  "map_of (idx sample_player) ''C1'' = Some [0, 1]
   \<and> cursor_pos sample_player ''C1'' = 0
   \<and> list_all (\<lambda>r. \<not> isl r) (fst (consume sample_decode sample_player ''C1'' (length [0::int, 1])))
   \<and> map_of (idx sample_player) ''C9'' = None
   \<and> fst (tryGetChunk sample_decode
        (snd (consume sample_decode sample_player ''C1'' (length [0::int, 1]))) ''C1'') = Inl EOF
   \<and> fst (tryGetChunk sample_decode sample_player ''C9'') = Inl ErrNotFound"
proof -
  have h1: "map_of (idx sample_player) ''C1'' = Some [0, 1]"
    by (simp add: sample_player_def)
  have h2: "cursor_pos sample_player ''C1'' = 0"
    by (simp add: cursor_pos_def sample_player_def)
  have h3: "consume sample_decode sample_player ''C1'' (length [0::int, 1])
      = (fst (consume sample_decode sample_player ''C1'' (length [0::int, 1])),
         snd (consume sample_decode sample_player ''C1'' (length [0::int, 1])))"
    by simp
  have h4: "list_all (\<lambda>r. \<not> isl r)
      (fst (consume sample_decode sample_player ''C1'' (length [0::int, 1])))"
    by code_simp
  have h5: "map_of (idx sample_player) ''C9'' = None"
    by (simp add: sample_player_def)
  from exhaustion_distinctness[OF h1 h2 h3 h4 h5] h1 h2 h4 h5 show ?thesis
    by simp
qed

text \<open>
  C7, in three statements that each hold on their own, for every player and key. For a
  key absent from the index \<open>hasMore\<close> is false. For a key of the index that has no entry
  in the cursor table (it has not been accessed, as every key of a new or reset player)
  \<open>hasMore\<close> is true. For a key of the index with a cursor, \<open>hasMore\<close> is true exactly
  when the cursor is before the end of the key's offset list, so it is false once the key
  is exhausted.
\<close>

theorem hasMore_semantics:
  "(map_of (idx p) k = None \<longrightarrow> \<not> hasMore p k)
   \<and> (map_of (idx p) k = Some offs \<longrightarrow> pointer p k = None \<longrightarrow> hasMore p k)
   \<and> (map_of (idx p) k = Some offs \<longrightarrow> pointer p k = Some n \<longrightarrow>
        hasMore p k = (n < length offs))"
  by (simp add: hasMore_def)

theorem hasMore_semantics_witness:
  "map_of (idx sample_player) ''C9'' = None \<and> \<not> hasMore sample_player ''C9''
   \<and> map_of (idx sample_player) ''C1'' = Some [0, 1] \<and> pointer sample_player ''C1'' = None
   \<and> hasMore sample_player ''C1''
   \<and> map_of (idx halfway_player) ''C1'' = Some [0, 1] \<and> pointer halfway_player ''C1'' = Some 1
   \<and> hasMore halfway_player ''C1''
   \<and> map_of (idx exhausted_player) ''C1'' = Some [0, 1]
   \<and> pointer exhausted_player ''C1'' = Some 2
   \<and> \<not> hasMore exhausted_player ''C1''"
proof -
  have a: "map_of (idx sample_player) ''C9'' = None"
    by (simp add: sample_player_def)
  have f: "map_of (idx sample_player) ''C1'' = Some [0, 1]" "pointer sample_player ''C1'' = None"
    by (simp_all add: sample_player_def)
  have h: "map_of (idx halfway_player) ''C1'' = Some [0, 1]"
    "pointer halfway_player ''C1'' = Some 1"
    by (simp_all add: halfway_player_def sample_player_def)
  have e: "map_of (idx exhausted_player) ''C1'' = Some [0, 1]"
    "pointer exhausted_player ''C1'' = Some 2"
    by (simp_all add: exhausted_player_def sample_player_def)
  from hasMore_semantics[of sample_player "''C9''"] a
  have 1: "\<not> hasMore sample_player ''C9''"
    by simp
  from hasMore_semantics[of sample_player "''C1''" "[0, 1]"] f
  have 2: "hasMore sample_player ''C1''"
    by simp
  from hasMore_semantics[of halfway_player "''C1''" "[0, 1]" 1] h
  have 3: "hasMore halfway_player ''C1''"
    by simp
  from hasMore_semantics[of exhausted_player "''C1''" "[0, 1]" 2] e
  have 4: "\<not> hasMore exhausted_player ''C1''"
    by simp
  from a f h e 1 2 3 4 show ?thesis
    by simp
qed

text \<open>
  C10. When \<open>tryGetChunk\<close> returns an error (not-found, exhausted, a failed seek or a failed
  decode), the cursor position of every key is what it was before the call, and the offset
  the next read of the same key seeks to is the same: the next call attempts the same
  record again.
\<close>

theorem failed_read_keeps_cursor:
  assumes "isl (fst (tryGetChunk D p k))"
  shows "cursor_pos (snd (tryGetChunk D p k)) k' = cursor_pos p k'
    \<and> next_offset (snd (tryGetChunk D p k)) k = next_offset p k"
proof -
  obtain e p' where t: "tryGetChunk D p k = (Inl e, p')"
    using assms by (cases "tryGetChunk D p k"; cases "fst (tryGetChunk D p k)") auto
  have "cursor_pos p' k' = cursor_pos p k'" "cursor_pos p' k = cursor_pos p k"
    using t by (rule tryGetChunk_err_cursor)+
  moreover have "idx p' = idx p"
    using t by (rule tryGetChunk_idx)
  ultimately show ?thesis
    using t by (simp add: next_offset_def split: option.splits)
qed

theorem failed_read_keeps_cursor_witness:
  "isl (fst (tryGetChunk sample_decode corrupt_player ''C1''))
   \<and> fst (tryGetChunk sample_decode corrupt_player ''C1'') = Inl (ErrDecodeAt 5 EOF)
   \<and> cursor_pos (snd (tryGetChunk sample_decode corrupt_player ''C1'')) ''C1'' = 0
   \<and> next_offset (snd (tryGetChunk sample_decode corrupt_player ''C1'')) ''C1'' = Some 5"
proof -
  have e: "fst (tryGetChunk sample_decode corrupt_player ''C1'') = Inl (ErrDecodeAt 5 EOF)"
    by code_simp
  then have h: "isl (fst (tryGetChunk sample_decode corrupt_player ''C1''))"
    by simp
  have c: "cursor_pos corrupt_player ''C1'' = 0"
    by (simp add: cursor_pos_def corrupt_player_def sample_player_def)
  have n: "next_offset corrupt_player ''C1'' = Some 5"
    by (simp add: next_offset_def cursor_pos_def corrupt_player_def sample_player_def)
  from failed_read_keeps_cursor[OF h, of "''C1''"] h e c n show ?thesis
    by simp
qed

section \<open>The replay server\<close>

lemma tryGetChunk_NotFound_state:
  assumes "fst (tryGetChunk D p k) = Inl ErrNotFound"
  shows "lastOffset (snd (tryGetChunk D p k)) = lastOffset p
    \<and> \<not> hasMore (snd (tryGetChunk D p k)) k"
  using assms
  by (auto simp: tryGetChunk_def Let_def hasMore_def Seek_def
      split: option.splits if_splits sum.splits prod.splits)

lemma tryGetChunk_EOF_state:
  assumes "fst (tryGetChunk D p k) = Inl EOF"
  shows "lastOffset (snd (tryGetChunk D p k)) = lastOffset p
    \<and> \<not> hasMore (snd (tryGetChunk D p k)) k"
  using assms
  by (auto simp: tryGetChunk_def Let_def hasMore_def Seek_def
      split: option.splits if_splits sum.splits prod.splits)

lemma history_translation:
  "fst (Player_Messages D p (req_channel req)) = Inl ErrNotFound \<Longrightarrow>
     fst (handleConversationsHistory D p req) = HTTP_NotFound"
  "req_channel req \<noteq> [] \<Longrightarrow> fst (Player_Messages D p (req_channel req)) = Inl EOF \<Longrightarrow>
     fst (handleConversationsHistory D p req) = HTTP_OK (zero_Envelope\<lparr>env_Ok := True\<rparr>)"
  by (auto simp: handleConversationsHistory_def Let_def zero_Envelope_def
      split: prod.splits sum.splits)

lemma info_translation:
  "req_channel req \<noteq> [] \<Longrightarrow> fst (Player_ChannelInfo D p (req_channel req)) = Inl ErrNotFound \<Longrightarrow>
     fst (handleConversationsInfo D p req) = HTTP_NotFound"
  "req_channel req \<noteq> [] \<Longrightarrow> fst (Player_ChannelInfo D p (req_channel req)) = Inl EOF \<Longrightarrow>
     fst (handleConversationsInfo D p req) = HTTP_InternalServerError EOF"
  by (auto simp: handleConversationsInfo_def Let_def split: prod.splits sum.splits)

lemma replies_translation:
  "req_ts req \<noteq> [] \<Longrightarrow>
     fst (Player_Thread D p (req_channel req) (req_ts req)) = Inl ErrNotFound \<Longrightarrow>
     fst (handleConversationsReplies D p req) =
       HTTP_OK (zero_Envelope\<lparr>env_NextCursor := FormatInt (Offset p),
         env_Error := ErrorText ErrNotFound\<rparr>)"
  "req_ts req \<noteq> [] \<Longrightarrow>
     fst (Player_Thread D p (req_channel req) (req_ts req)) = Inl EOF \<Longrightarrow>
     fst (handleConversationsReplies D p req) =
       HTTP_OK (zero_Envelope\<lparr>env_NextCursor := FormatInt (Offset p),
         env_Error := Text (''thread_not_found['' @ req_channel req @ '':'' @ req_ts req @ '']'')\<rparr>)"
proof -
  let ?k = "threadID (req_channel req) (req_ts req)"
  {
    assume ts: "req_ts req \<noteq> []"
      and nf: "fst (Player_Thread D p (req_channel req) (req_ts req)) = Inl ErrNotFound"
    from nf have t: "fst (tryGetChunk D p ?k) = Inl ErrNotFound"
      by (auto simp: Player_Thread_def split: prod.splits sum.splits)
    from tryGetChunk_NotFound_state[OF t] ts t
    show "fst (handleConversationsReplies D p req) =
       HTTP_OK (zero_Envelope\<lparr>env_NextCursor := FormatInt (Offset p),
         env_Error := ErrorText ErrNotFound\<rparr>)"
      by (auto simp: handleConversationsReplies_def Player_Thread_def HasMoreThreads_def
          Offset_def Let_def zero_Envelope_def split: prod.splits sum.splits)
  }
  {
    assume ts: "req_ts req \<noteq> []"
      and ex: "fst (Player_Thread D p (req_channel req) (req_ts req)) = Inl EOF"
    from ex have t: "fst (tryGetChunk D p ?k) = Inl EOF"
      by (auto simp: Player_Thread_def split: prod.splits sum.splits)
    from tryGetChunk_EOF_state[OF t] ts t
    show "fst (handleConversationsReplies D p req) =
       HTTP_OK (zero_Envelope\<lparr>env_NextCursor := FormatInt (Offset p),
         env_Error := Text (''thread_not_found['' @ req_channel req @ '':'' @ req_ts req @ '']'')\<rparr>)"
      by (auto simp: handleConversationsReplies_def Player_Thread_def HasMoreThreads_def
          Offset_def Let_def zero_Envelope_def split: prod.splits sum.splits)
  }
qed

lemma users_translation:
  "fst (Player_Users D p) = Inl ErrNotFound \<Longrightarrow>
     fst (handleUsersList D p) = HTTP_InternalServerError ErrNotFound"
  "fst (Player_Users D p) = Inl EOF \<Longrightarrow>
     fst (handleUsersList D p) =
       HTTP_OK (zero_Envelope\<lparr>env_Error := Text ''pagination complete''\<rparr>)"
  by (auto simp: handleUsersList_def zero_Envelope_def split: prod.splits sum.splits)

lemma list_translation:
  "fst (Player_Channels D p) = Inl ErrNotFound \<Longrightarrow>
     fst (handleConversationsList D p) = HTTP_InternalServerError ErrNotFound"
  "fst (Player_Channels D p) = Inl EOF \<Longrightarrow>
     fst (handleConversationsList D p) = HTTP_OK zero_Envelope"
  by (auto simp: handleConversationsList_def zero_Envelope_def split: prod.splits sum.splits)

text \<open>
  C6, as the code has it: what each of the five handlers answers to a Player result of
  not-found and of exhausted, in ten statements that each hold on their own, for every
  decoder, player and request.
  conversations.history: not-found gives the 404 response; exhausted gives a success
  envelope (\<open>ok\<close> true) with no messages and \<open>has_more\<close> false.
  conversations.info: not-found gives the 404 response; exhausted gives the status 500.
  conversations.replies: both give status 200 and an envelope with \<open>ok\<close> false, no messages,
  \<open>has_more\<close> false and the last read offset as cursor; the error text is that of the
  error for not-found and \<open>thread_not_found[channel:ts]\<close> for exhausted.
  users.list and conversations.list: not-found gives the status 500; exhausted gives status
  200 and an envelope with \<open>ok\<close> false, no items and \<open>has_more\<close> false, with the error
  text \<open>pagination complete\<close> for users.list and none for conversations.list.
  So conversations.history is the only handler that translates both results as the claim
  says.
\<close>

theorem replay_error_translation:
  "(fst (Player_Messages D p (req_channel req)) = Inl ErrNotFound \<longrightarrow>
      fst (handleConversationsHistory D p req) = HTTP_NotFound)
   \<and> (req_channel req \<noteq> [] \<longrightarrow> fst (Player_Messages D p (req_channel req)) = Inl EOF \<longrightarrow>
      fst (handleConversationsHistory D p req) = HTTP_OK (zero_Envelope\<lparr>env_Ok := True\<rparr>))
   \<and> (req_channel req \<noteq> [] \<longrightarrow>
      fst (Player_ChannelInfo D p (req_channel req)) = Inl ErrNotFound \<longrightarrow>
      fst (handleConversationsInfo D p req) = HTTP_NotFound)
   \<and> (req_channel req \<noteq> [] \<longrightarrow> fst (Player_ChannelInfo D p (req_channel req)) = Inl EOF \<longrightarrow>
      fst (handleConversationsInfo D p req) = HTTP_InternalServerError EOF)
   \<and> (req_ts req \<noteq> [] \<longrightarrow>
      fst (Player_Thread D p (req_channel req) (req_ts req)) = Inl ErrNotFound \<longrightarrow>
      fst (handleConversationsReplies D p req) =
        HTTP_OK (zero_Envelope\<lparr>env_NextCursor := FormatInt (Offset p),
          env_Error := ErrorText ErrNotFound\<rparr>))
   \<and> (req_ts req \<noteq> [] \<longrightarrow>
      fst (Player_Thread D p (req_channel req) (req_ts req)) = Inl EOF \<longrightarrow>
      fst (handleConversationsReplies D p req) =
        HTTP_OK (zero_Envelope\<lparr>env_NextCursor := FormatInt (Offset p),
          env_Error :=
            Text (''thread_not_found['' @ req_channel req @ '':'' @ req_ts req @ '']'')\<rparr>))
   \<and> (fst (Player_Users D p) = Inl ErrNotFound \<longrightarrow>
      fst (handleUsersList D p) = HTTP_InternalServerError ErrNotFound)
   \<and> (fst (Player_Users D p) = Inl EOF \<longrightarrow>
      fst (handleUsersList D p) =
        HTTP_OK (zero_Envelope\<lparr>env_Error := Text ''pagination complete''\<rparr>))
   \<and> (fst (Player_Channels D p) = Inl ErrNotFound \<longrightarrow>
      fst (handleConversationsList D p) = HTTP_InternalServerError ErrNotFound)
   \<and> (fst (Player_Channels D p) = Inl EOF \<longrightarrow>
      fst (handleConversationsList D p) = HTTP_OK zero_Envelope)"
  using history_translation[where D=D and p=p and req=req]
    info_translation[where D=D and p=p and req=req]
    replies_translation[where D=D and p=p and req=req]
    users_translation[where D=D and p=p] list_translation[where D=D and p=p]
  by blast

theorem replay_error_translation_witness:
  "fst (Player_Messages sample_decode empty_player (req_channel req_B)) = Inl ErrNotFound
   \<and> fst (handleConversationsHistory sample_decode empty_player req_B) = HTTP_NotFound
   \<and> req_channel req_B \<noteq> []
   \<and> fst (Player_Messages sample_decode drained_player (req_channel req_B)) = Inl EOF
   \<and> fst (handleConversationsHistory sample_decode drained_player req_B) =
        HTTP_OK (zero_Envelope\<lparr>env_Ok := True\<rparr>)
   \<and> fst (Player_ChannelInfo sample_decode empty_player (req_channel req_B)) = Inl ErrNotFound
   \<and> fst (handleConversationsInfo sample_decode empty_player req_B) = HTTP_NotFound
   \<and> fst (Player_ChannelInfo sample_decode drained_player (req_channel req_B)) = Inl EOF
   \<and> fst (handleConversationsInfo sample_decode drained_player req_B) =
        HTTP_InternalServerError EOF
   \<and> req_ts req_B \<noteq> []
   \<and> fst (Player_Thread sample_decode empty_player (req_channel req_B) (req_ts req_B)) =
        Inl ErrNotFound
   \<and> fst (handleConversationsReplies sample_decode empty_player req_B) =
        HTTP_OK (zero_Envelope\<lparr>env_NextCursor := ''0'', env_Error := ErrorText ErrNotFound\<rparr>)
   \<and> fst (Player_Thread sample_decode drained_player (req_channel req_B) (req_ts req_B)) =
        Inl EOF
   \<and> fst (handleConversationsReplies sample_decode drained_player req_B) =
        HTTP_OK (zero_Envelope\<lparr>env_NextCursor := ''7'',
          env_Error := Text ''thread_not_found[C1:1000.001]''\<rparr>)
   \<and> fst (Player_Users sample_decode empty_player) = Inl ErrNotFound
   \<and> fst (handleUsersList sample_decode empty_player) = HTTP_InternalServerError ErrNotFound
   \<and> fst (Player_Users sample_decode drained_player) = Inl EOF
   \<and> fst (handleUsersList sample_decode drained_player) =
        HTTP_OK (zero_Envelope\<lparr>env_Error := Text ''pagination complete''\<rparr>)
   \<and> fst (Player_Channels sample_decode empty_player) = Inl ErrNotFound
   \<and> fst (handleConversationsList sample_decode empty_player) =
        HTTP_InternalServerError ErrNotFound
   \<and> fst (Player_Channels sample_decode drained_player) = Inl EOF
   \<and> fst (handleConversationsList sample_decode drained_player) = HTTP_OK zero_Envelope"
proof -
  have c: "req_channel req_B \<noteq> []" and s: "req_ts req_B \<noteq> []"
    by (simp_all add: req_B_def)
  have n1: "fst (Player_Messages sample_decode empty_player (req_channel req_B)) = Inl ErrNotFound"
    by code_simp
  have n2: "fst (Player_ChannelInfo sample_decode empty_player (req_channel req_B)) = Inl ErrNotFound"
    by code_simp
  have n3: "fst (Player_Thread sample_decode empty_player (req_channel req_B) (req_ts req_B)) =
      Inl ErrNotFound"
    by code_simp
  have n4: "fst (Player_Users sample_decode empty_player) = Inl ErrNotFound"
    by code_simp
  have n5: "fst (Player_Channels sample_decode empty_player) = Inl ErrNotFound"
    by code_simp
  have e1: "fst (Player_Messages sample_decode drained_player (req_channel req_B)) = Inl EOF"
    by code_simp
  have e2: "fst (Player_ChannelInfo sample_decode drained_player (req_channel req_B)) = Inl EOF"
    by code_simp
  have e3: "fst (Player_Thread sample_decode drained_player (req_channel req_B) (req_ts req_B)) =
      Inl EOF"
    by code_simp
  have e4: "fst (Player_Users sample_decode drained_player) = Inl EOF"
    by code_simp
  have e5: "fst (Player_Channels sample_decode drained_player) = Inl EOF"
    by code_simp
  have o: "FormatInt (Offset empty_player) = ''0''" "FormatInt (Offset drained_player) = ''7''"
    by code_simp+
  have r: "''thread_not_found['' @ req_channel req_B @ '':'' @ req_ts req_B @ '']'' =
      ''thread_not_found[C1:1000.001]''"
    by (simp add: req_B_def)
  from replay_error_translation[of sample_decode empty_player req_B] c s n1 n2 n3 n4 n5 o
  have nf: "fst (handleConversationsHistory sample_decode empty_player req_B) = HTTP_NotFound"
    "fst (handleConversationsInfo sample_decode empty_player req_B) = HTTP_NotFound"
    "fst (handleConversationsReplies sample_decode empty_player req_B) =
        HTTP_OK (zero_Envelope\<lparr>env_NextCursor := ''0'', env_Error := ErrorText ErrNotFound\<rparr>)"
    "fst (handleUsersList sample_decode empty_player) = HTTP_InternalServerError ErrNotFound"
    "fst (handleConversationsList sample_decode empty_player) =
        HTTP_InternalServerError ErrNotFound"
    by simp_all
  from replay_error_translation[of sample_decode drained_player req_B] c s e1 e2 e3 e4 e5 o r
  have ex: "fst (handleConversationsHistory sample_decode drained_player req_B) =
        HTTP_OK (zero_Envelope\<lparr>env_Ok := True\<rparr>)"
    "fst (handleConversationsInfo sample_decode drained_player req_B) =
        HTTP_InternalServerError EOF"
    "fst (handleConversationsReplies sample_decode drained_player req_B) =
        HTTP_OK (zero_Envelope\<lparr>env_NextCursor := ''7'',
          env_Error := Text ''thread_not_found[C1:1000.001]''\<rparr>)"
    "fst (handleUsersList sample_decode drained_player) =
        HTTP_OK (zero_Envelope\<lparr>env_Error := Text ''pagination complete''\<rparr>)"
    "fst (handleConversationsList sample_decode drained_player) = HTTP_OK zero_Envelope"
    by simp_all
  from c s n1 n2 n3 n4 n5 e1 e2 e3 e4 e5 nf ex show ?thesis
    by simp
qed

text \<open>
  C6 as the spec words it fails: for a thread whose records are exhausted, the
  conversations.replies handler answers with an envelope whose \<open>ok\<close> flag is false and
  the error text \<open>thread_not_found[C1:1000.001]\<close>, an error response.
\<close>

theorem replay_error_translation_counterexample:
  "fst (Player_Thread sample_decode drained_player ''C1'' ''1000.001'') = Inl EOF
   \<and> fst (handleConversationsReplies sample_decode drained_player req_B) =
        HTTP_OK (zero_Envelope\<lparr>env_NextCursor := ''7'', env_Error := Text ''thread_not_found[C1:1000.001]''\<rparr>)
   \<and> \<not> env_Ok (zero_Envelope\<lparr>env_NextCursor := ''7'', env_Error := Text ''thread_not_found[C1:1000.001]''\<rparr>)"
  by code_simp

section \<open>The channel listing\<close>

lemma AllChannelIDs_exact:
  assumes "distinct (map fst (idx p))"
  shows "sorted (AllChannelIDs p) \<and> distinct (AllChannelIDs p)
    \<and> set (AllChannelIDs p) =
        {k \<in> fst ` set (idx p). CHR '':'' \<notin> set k \<and> \<not> prefix ''ci'' k}"
  using assms by (auto simp: AllChannelIDs_def)

text \<open>
  C8 does not hold of the code. For a log with a ChannelInfo record of channel C1, a
  Messages record of C1 and a Users record, the index has the keys \<open>icC1\<close>, \<open>C1\<close> and
  \<open>lusr\<close>, and \<open>AllChannelIDs\<close> returns all three, sorted, where the claim (and the
  function's own comment, all the channels in the chunk file) has the plain channel key
  \<open>C1\<close> alone.
\<close>

theorem AllChannelIDs_lists_other_keys:
  "channelInfoID ''C1'' = ''icC1'' \<and> userChunkID = ''lusr''
   \<and> map fst (idx listing_player) = [''icC1'', ''C1'', ''lusr'']
   \<and> AllChannelIDs listing_player = [''C1'', ''icC1'', ''lusr'']"
  by code_simp

section \<open>Injectivity of the key derivation\<close>

lemma colon_split_unique:
  "x \<notin> set a \<Longrightarrow> x \<notin> set b \<Longrightarrow> a @ x # u = b @ x # v \<Longrightarrow> a = b \<and> u = v"
proof (induction a arbitrary: b)
  case Nil
  then show ?case by (cases b) auto
next
  case (Cons y a)
  then show ?case by (cases b) auto
qed

lemma ID_Messages: "Type c = CMessages \<Longrightarrow> ID S c = Inr (ChannelID c)"
  by (simp add: ID_def)

lemma ID_Thread: "Type c = CThreadMessages \<Longrightarrow> ID S c = Inr k \<Longrightarrow>
  \<exists>par. Parent c = Some par \<and> k = CHR ''t'' # ChannelID c @ CHR '':'' # msg_ThreadTimestamp par"
  by (auto simp: ID_def ChunkType_defs threadID_def id_gid_def GroupID_defs split: option.splits)

lemma ID_Files: "Type c = CFiles \<Longrightarrow> ID S c = Inr k \<Longrightarrow>
  \<exists>par. Parent c = Some par \<and> k = CHR ''f'' # ChannelID c @ CHR '':'' # msg_Timestamp par"
  by (auto simp: ID_def ChunkType_defs id_gid_def GroupID_defs split: option.splits)

lemma ID_ChannelInfo: "Type c = CChannelInfo \<Longrightarrow> ID S c = Inr (CHR ''i'' # CHR ''c'' # ChannelID c)"
  by (simp add: ID_def ChunkType_defs channelInfoID_def id_gid_def GroupID_defs)

lemma ID_ChannelUsers:
  "Type c = CChannelUsers \<Longrightarrow> ID S c = Inr (CHR ''l'' # CHR ''c'' # CHR ''u'' # ChannelID c)"
  by (simp add: ID_def ChunkType_defs channelUsersID_def id_gid_def GroupID_defs)

lemma ID_Bookmarks: "Type c = CBookmarks \<Longrightarrow> ID S c = Inr (CHR ''l'' # CHR ''b'' # ChannelID c)"
  by (simp add: ID_def ChunkType_defs id_gid_def GroupID_defs)

lemma ID_static:
  "Type c = CUsers \<Longrightarrow> ID S c = Inr ''lusr''"
  "Type c = CChannels \<Longrightarrow> ID S c = Inr ''lch''"
  "Type c = CWorkspaceInfo \<Longrightarrow> ID S c = Inr ''iw''"
  "Type c = CStarredItems \<Longrightarrow> ID S c = Inr ''ls''"
  by (simp_all add: ID_def ChunkType_defs GroupID_defs)

lemma key_type_plain: "plain_channel_id ch \<Longrightarrow> key_type ch = CMessages"
  by (cases ch) (auto simp: plain_channel_id_def key_type_def)

lemma supported_cases:
  assumes "supported t"
  obtains "t = CMessages" | "t = CThreadMessages" | "t = CFiles" | "t = CUsers"
    | "t = CChannels" | "t = CChannelInfo" | "t = CWorkspaceInfo"
    | "t = CChannelUsers" | "t = CStarredItems" | "t = CBookmarks"
  using assms by (auto simp: supported_def)

lemma key_type_ID:
  assumes "supported (Type c)" and "plain_channel_id (ChannelID c)" and "ID S c = Inr k"
  shows "key_type k = Type c"
  using assms(1)
proof (cases rule: supported_cases)
  case 1
  with assms(3) have "k = ChannelID c" by (simp add: ID_Messages)
  with 1 assms(2) show ?thesis by (simp add: key_type_plain)
next
  case 2
  from ID_Thread[OF 2 assms(3)] obtain r where "k = CHR ''t'' # r" by blast
  with 2 show ?thesis by (simp add: key_type_def)
next
  case 3
  from ID_Files[OF 3 assms(3)] obtain r where "k = CHR ''f'' # r" by blast
  with 3 show ?thesis by (simp add: key_type_def)
next
  case 4
  with assms(3) have "k = ''lusr''" by (simp add: ID_static)
  with 4 show ?thesis by (simp add: key_type_def)
next
  case 5
  with assms(3) have "k = ''lch''" by (simp add: ID_static)
  with 5 show ?thesis by (simp add: key_type_def)
next
  case 6
  with assms(3) have "k = CHR ''i'' # CHR ''c'' # ChannelID c" by (simp add: ID_ChannelInfo)
  with 6 show ?thesis by (simp add: key_type_def)
next
  case 7
  with assms(3) have "k = ''iw''" by (simp add: ID_static)
  with 7 show ?thesis by (simp add: key_type_def)
next
  case 8
  with assms(3) have "k = CHR ''l'' # CHR ''c'' # CHR ''u'' # ChannelID c"
    by (simp add: ID_ChannelUsers)
  with 8 show ?thesis by (simp add: key_type_def)
next
  case 9
  with assms(3) have "k = ''ls''" by (simp add: ID_static)
  with 9 show ?thesis by (simp add: key_type_def)
next
  case 10
  with assms(3) have "k = CHR ''l'' # CHR ''b'' # ChannelID c" by (simp add: ID_Bookmarks)
  with 10 show ?thesis by (simp add: key_type_def)
qed

lemma same_type_keys:
  assumes t: "Type a = Type b" and sa: "supported (Type a)"
    and ca: "CHR '':'' \<notin> set (ChannelID a)" and cb: "CHR '':'' \<notin> set (ChannelID b)"
    and ka: "ID S a = Inr ka" and kb: "ID S b = Inr kb"
  shows "ka = kb \<longleftrightarrow> static_key_type (Type a) \<or> addressing a = addressing b"
  using sa
proof (cases rule: supported_cases)
  case 1
  with t have tb: "Type b = CMessages" by simp
  have "ka = ChannelID a" "kb = ChannelID b"
    using ka kb 1 tb by (simp_all add: ID_Messages)
  with 1 tb show ?thesis
    by (simp add: addressing_def static_key_type_def ChunkType_defs)
next
  case 2
  with t have tb: "Type b = CThreadMessages" by simp
  from ID_Thread[OF 2 ka] obtain pa where
    a: "Parent a = Some pa" "ka = CHR ''t'' # ChannelID a @ CHR '':'' # msg_ThreadTimestamp pa"
    by blast
  from ID_Thread[OF tb kb] obtain pb where
    b: "Parent b = Some pb" "kb = CHR ''t'' # ChannelID b @ CHR '':'' # msg_ThreadTimestamp pb"
    by blast
  have "ka = kb \<longleftrightarrow> ChannelID a = ChannelID b \<and> msg_ThreadTimestamp pa = msg_ThreadTimestamp pb"
    using a(2) b(2) colon_split_unique[OF ca cb] by auto
  with 2 tb a(1) b(1) show ?thesis
    by (simp add: addressing_def static_key_type_def ChunkType_defs)
next
  case 3
  with t have tb: "Type b = CFiles" by simp
  from ID_Files[OF 3 ka] obtain pa where
    a: "Parent a = Some pa" "ka = CHR ''f'' # ChannelID a @ CHR '':'' # msg_Timestamp pa"
    by blast
  from ID_Files[OF tb kb] obtain pb where
    b: "Parent b = Some pb" "kb = CHR ''f'' # ChannelID b @ CHR '':'' # msg_Timestamp pb"
    by blast
  have "ka = kb \<longleftrightarrow> ChannelID a = ChannelID b \<and> msg_Timestamp pa = msg_Timestamp pb"
    using a(2) b(2) colon_split_unique[OF ca cb] by auto
  with 3 tb a(1) b(1) show ?thesis
    by (simp add: addressing_def static_key_type_def ChunkType_defs)
next
  case 4
  with t have tb: "Type b = CUsers" by simp
  have "ka = ''lusr''" "kb = ''lusr''"
    using ka kb 4 tb by (simp_all add: ID_static)
  with 4 show ?thesis by (simp add: static_key_type_def)
next
  case 5
  with t have tb: "Type b = CChannels" by simp
  have "ka = ''lch''" "kb = ''lch''"
    using ka kb 5 tb by (simp_all add: ID_static)
  with 5 show ?thesis by (simp add: static_key_type_def)
next
  case 6
  with t have tb: "Type b = CChannelInfo" by simp
  have "ka = CHR ''i'' # CHR ''c'' # ChannelID a" "kb = CHR ''i'' # CHR ''c'' # ChannelID b"
    using ka kb 6 tb by (simp_all add: ID_ChannelInfo)
  with 6 tb show ?thesis
    by (simp add: addressing_def static_key_type_def ChunkType_defs)
next
  case 7
  with t have tb: "Type b = CWorkspaceInfo" by simp
  have "ka = ''iw''" "kb = ''iw''"
    using ka kb 7 tb by (simp_all add: ID_static)
  with 7 show ?thesis by (simp add: static_key_type_def)
next
  case 8
  with t have tb: "Type b = CChannelUsers" by simp
  have "ka = CHR ''l'' # CHR ''c'' # CHR ''u'' # ChannelID a"
    "kb = CHR ''l'' # CHR ''c'' # CHR ''u'' # ChannelID b"
    using ka kb 8 tb by (simp_all add: ID_ChannelUsers)
  with 8 tb show ?thesis
    by (simp add: addressing_def static_key_type_def ChunkType_defs)
next
  case 9
  with t have tb: "Type b = CStarredItems" by simp
  have "ka = ''ls''" "kb = ''ls''"
    using ka kb 9 tb by (simp_all add: ID_static)
  with 9 show ?thesis by (simp add: static_key_type_def)
next
  case 10
  with t have tb: "Type b = CBookmarks" by simp
  have "ka = CHR ''l'' # CHR ''b'' # ChannelID a" "kb = CHR ''l'' # CHR ''b'' # ChannelID b"
    using ka kb 10 tb by (simp_all add: ID_Bookmarks)
  with 10 tb show ?thesis
    by (simp add: addressing_def static_key_type_def ChunkType_defs)
qed

text \<open>
  C4, as the code has it. \<open>ID\<close> is a function of the chunk, so two calls on the same
  chunk give the same key. For two chunks of supported types whose channel IDs contain no
  colon and do not begin with a prefix letter (\<open>t\<close>, \<open>f\<close>, \<open>i\<close>, \<open>l\<close>), and for which
  \<open>ID\<close> returns keys, the keys are equal exactly when the types are equal and either the
  type has a static key or the channel IDs and the parent timestamps that \<open>ID\<close> reads are
  equal.
\<close>

theorem addressing_injective:
  assumes sa: "supported (Type a)" and sb: "supported (Type b)"
    and pa: "plain_channel_id (ChannelID a)" and pb: "plain_channel_id (ChannelID b)"
    and ka: "ID S a = Inr ka" and kb: "ID S b = Inr kb"
  shows "ka = kb \<longleftrightarrow>
    Type a = Type b \<and> (static_key_type (Type a) \<or> addressing a = addressing b)"
proof (cases "Type a = Type b")
  case True
  have "CHR '':'' \<notin> set (ChannelID a)" "CHR '':'' \<notin> set (ChannelID b)"
    using pa pb by (simp_all add: plain_channel_id_def)
  from same_type_keys[OF True sa this ka kb] True show ?thesis by simp
next
  case False
  have "key_type ka = Type a" "key_type kb = Type b"
    using key_type_ID[OF sa pa ka] key_type_ID[OF sb pb kb] by simp_all
  with False have "ka \<noteq> kb" by auto
  with False show ?thesis by simp
qed


theorem addressing_injective_witness:
  "supported (Type chunk_m1) \<and> supported (Type thread_chunk_B)
   \<and> plain_channel_id (ChannelID chunk_m1) \<and> plain_channel_id (ChannelID thread_chunk_B)
   \<and> ID ChunkType_String chunk_m1 = Inr ''C1''
   \<and> ID ChunkType_String thread_chunk_B = Inr ''tC1:1000.001''
   \<and> addressing chunk_m1 \<noteq> addressing thread_chunk_B
   \<and> ''C1'' \<noteq> ''tC1:1000.001''"
proof -
  have h1: "supported (Type chunk_m1)" and h2: "supported (Type thread_chunk_B)"
    by (simp_all add: supported_def chunk_m1_def thread_chunk_B_def zero_Chunk_def)
  have h3: "plain_channel_id (ChannelID chunk_m1)"
    and h4: "plain_channel_id (ChannelID thread_chunk_B)"
    by (simp_all add: plain_channel_id_def chunk_m1_def thread_chunk_B_def zero_Chunk_def)
  have h5: "ID ChunkType_String chunk_m1 = Inr ''C1''"
    by (simp add: ID_def chunk_m1_def zero_Chunk_def)
  have h6: "ID ChunkType_String thread_chunk_B = Inr ''tC1:1000.001''"
    by (simp add: ID_def ChunkType_defs threadID_def id_gid_def GroupID_defs thread_chunk_B_def zero_Chunk_def mk_msg_def)
  have h7: "addressing chunk_m1 \<noteq> addressing thread_chunk_B"
    by (simp add: addressing_def chunk_m1_def thread_chunk_B_def zero_Chunk_def ChunkType_defs)
  from addressing_injective[OF h1 h2 h3 h4 h5 h6] h1 h2 h3 h4 h5 h6 h7 show ?thesis
    by simp
qed

text \<open>
  C4 as the spec words it fails: a Messages chunk whose channel ID is spelled
  \<open>tC1:1000.001\<close> and the ThreadMessages chunk of channel C1 and thread 1000.001 differ in
  type and channel ID, neither type has a static key, and both derive the same key.
\<close>

theorem addressing_injective_counterexample:
  "addressing odd_channel_chunk \<noteq> addressing thread_chunk_B
   \<and> \<not> static_key_type (Type odd_channel_chunk) \<and> \<not> static_key_type (Type thread_chunk_B)
   \<and> ID ChunkType_String odd_channel_chunk = ID ChunkType_String thread_chunk_B"
  by (simp add: addressing_def static_key_type_def ID_def ChunkType_defs threadID_def id_gid_def
      GroupID_defs odd_channel_chunk_def thread_chunk_B_def zero_Chunk_def mk_msg_def)

section \<open>The state ledger\<close>

lemma ForEach_loop_decodes:
  "decodes_from D bs off vs \<Longrightarrow>
     ForEach_loop D \<lparr>dec_input = bs, dec_off = off\<rparr> fn acc = Some (run_fn fn vs acc)"
proof (induction vs arbitrary: off acc)
  case Nil
  then show ?case
    by (subst ForEach_loop.simps) (auto simp: Decode_def split: prod.splits sum.splits)
next
  case (Cons v vs)
  from Cons.prems obtain n where
    d: "D (drop off bs) = (Inr v, n)" and r: "decodes_from D bs (off + n) vs"
    by (auto split: prod.splits sum.splits)
  show ?case
  proof (cases "fn v acc")
    case (Inl e)
    with d show ?thesis
      by (subst ForEach_loop.simps) (simp add: Decode_def)
  next
    case (Inr acc')
    with d Cons.IH[OF r, of acc'] show ?thesis
      by (subst ForEach_loop.simps) (simp add: Decode_def)
  qed
qed

lemma State_eqI:
  fixes a b :: State
  assumes "st_Filename a = st_Filename b" and "st_Messages a = st_Messages b"
    and "st_Threads a = st_Threads b" and "st_Files a = st_Files b"
  shows "a = b"
  using assms by (intro State.equality) simp_all

lemma fold_AddMessage:
  "fold (\<lambda>m s'. AddMessage s' ch (msg_Timestamp m)) ms s =
     \<lparr>st_Filename = st_Filename s,
      st_Messages = (st_Messages s)(ch := st_Messages s ch \<union> msg_Timestamp ` set ms),
      st_Threads = st_Threads s, st_Files = st_Files s\<rparr>"
proof (induction ms arbitrary: s)
  case Nil
  show ?case by (rule State_eqI) simp_all
next
  case (Cons m ms)
  show ?case
    by (simp only: fold.simps comp_apply Cons.IH) (rule State_eqI; auto simp: AddMessage_def fun_eq_iff)
qed

lemma fold_AddThread:
  "fold (\<lambda>m s'. AddThread s' ch th (msg_Timestamp m)) ms s =
     \<lparr>st_Filename = st_Filename s, st_Messages = st_Messages s,
      st_Threads = (st_Threads s)((ch, th) := st_Threads s (ch, th) \<union> msg_Timestamp ` set ms),
      st_Files = st_Files s\<rparr>"
proof (induction ms arbitrary: s)
  case Nil
  show ?case by (rule State_eqI) simp_all
next
  case (Cons m ms)
  show ?case
    by (simp only: fold.simps comp_apply Cons.IH) (rule State_eqI; auto simp: AddThread_def fun_eq_iff)
qed

lemma fold_AddFile:
  "fold (\<lambda>f s'. AddFile s' ch (file_ID f) []) fs s =
     \<lparr>st_Filename = st_Filename s, st_Messages = st_Messages s, st_Threads = st_Threads s,
      st_Files = (st_Files s)(ch := (\<lambda>fileID. if fileID \<in> file_ID ` set fs then Some []
                                               else st_Files s ch fileID))\<rparr>"
proof (induction fs arbitrary: s)
  case Nil
  show ?case by (rule State_eqI) (simp_all add: fun_eq_iff)
next
  case (Cons f fs)
  show ?case
    by (simp only: fold.simps comp_apply Cons.IH)
      (rule State_eqI; auto simp: AddFile_def fun_eq_iff)
qed

lemma State_fn_step:
  assumes "has_parent v"
  shows "State_fn v s = Inr (step s v)"
proof (cases v)
  case None
  have "s = step s None"
    by (rule State_eqI) (simp_all add: step_def chunk_messages_def chunk_threads_def chunk_files_def)
  with None show ?thesis by (simp add: State_fn_def)
next
  case (Some c)
  consider "Type c = CFiles" | "Type c = CThreadMessages" | "Type c = CMessages"
    | "Type c \<noteq> CFiles" "Type c \<noteq> CThreadMessages" "Type c \<noteq> CMessages"
    by blast
  then show ?thesis
  proof cases
    case 1
    then have "fold (\<lambda>f s'. AddFile s' (ChannelID c) (file_ID f) []) (Files c) s = step s (Some c)"
      unfolding fold_AddFile
      by (intro State_eqI)
        (auto simp: step_def chunk_messages_def chunk_threads_def chunk_files_def
          ChunkType_defs fun_eq_iff split: option.splits)
    with 1 Some show ?thesis
      by (simp add: State_fn_def ChunkType_defs)
  next
    case 2
    show ?thesis
    proof (cases "Messages c = []")
      case True
      have "s = step s (Some c)"
        using 2 True
        by (intro State_eqI)
          (auto simp: step_def chunk_messages_def chunk_threads_def chunk_files_def
            ChunkType_defs fun_eq_iff split: option.splits)
      with 2 True Some show ?thesis
        by (simp add: State_fn_def ChunkType_defs)
    next
      case False
      with assms Some 2 obtain par where par: "Parent c = Some par"
        by (auto simp: has_parent_def)
      have "fold (\<lambda>m s'. AddThread s' (ChannelID c) (msg_ThreadTimestamp par) (msg_Timestamp m))
          (Messages c) s = step s (Some c)"
        unfolding fold_AddThread using 2 par
        by (intro State_eqI)
          (auto simp: step_def chunk_messages_def chunk_threads_def chunk_files_def
            ChunkType_defs fun_eq_iff)
      with 2 False par Some show ?thesis
        by (simp add: State_fn_def ChunkType_defs)
    qed
  next
    case 3
    then have "fold (\<lambda>m s'. AddMessage s' (ChannelID c) (msg_Timestamp m)) (Messages c) s
        = step s (Some c)"
      unfolding fold_AddMessage
      by (intro State_eqI)
        (auto simp: step_def chunk_messages_def chunk_threads_def chunk_files_def
          ChunkType_defs fun_eq_iff split: option.splits)
    with 3 Some show ?thesis
      by (simp add: State_fn_def ChunkType_defs)
  next
    case 4
    have "s = step s (Some c)"
      using 4
      by (intro State_eqI)
        (auto simp: step_def chunk_messages_def chunk_threads_def chunk_files_def
          fun_eq_iff split: option.splits)
    with 4 Some show ?thesis
      by (simp add: State_fn_def)
  qed
qed

lemma run_State_fn:
  "list_all has_parent vs \<Longrightarrow> run_fn State_fn vs s = Inr (foldl step s vs)"
  by (induction vs arbitrary: s) (simp_all add: State_fn_step)

lemma foldl_step:
  "foldl step s vs =
     \<lparr>st_Filename = st_Filename s,
      st_Messages = (\<lambda>ch. st_Messages s ch \<union> (\<Union>v\<in>set vs. chunk_messages v ch)),
      st_Threads = (\<lambda>k. st_Threads s k \<union> (\<Union>v\<in>set vs. chunk_threads v k)),
      st_Files = (\<lambda>ch fileID. if fileID \<in> (\<Union>v\<in>set vs. chunk_files v ch) then Some []
                               else st_Files s ch fileID)\<rparr>"
proof (induction vs arbitrary: s)
  case Nil
  show ?case by (rule State_eqI) simp_all
next
  case (Cons v vs)
  show ?case
    by (simp only: foldl.simps Cons.IH) (rule State_eqI; auto simp: step_def fun_eq_iff)
qed

lemma ledger_foldl: "foldl step (state_New name) vs = ledger name vs"
  unfolding foldl_step by (auto simp: state_New_def ledger_def fun_eq_iff)

text \<open>
  C9. Let the log decode, record by record from offset 0, to the values \<open>vs\<close>, where every
  ThreadMessages record with replies names its parent. Then \<open>State\<close> returns the ledger
  that has, for every Messages chunk, each message timestamp under the chunk's channel;
  for every ThreadMessages chunk, each reply timestamp under the chunk's channel and the
  parent's thread timestamp; and for every Files chunk, each file identifier under the
  chunk's channel with the empty path. For the log of scenario C (two Messages records of
  C1 with the timestamps 1.0 and 2.0, one Files record of C1 with the file F1) the ledger
  has the messages \<open>{1.0, 2.0}\<close> for C1 and the file F1 with the empty path.
\<close>

theorem state_ledger_contents:
  assumes "decodes_from D (rs_data (rs p)) 0 vs" and "list_all has_parent vs"
  shows "map_option fst (Player_State D p) =
    Some (Inr (ledger (case rs_name (rs p) of None \<Rightarrow> [] | Some n \<Rightarrow> filepath_Base n) vs))"
proof -
  define name where "name = (case rs_name (rs p) of None \<Rightarrow> [] | Some n \<Rightarrow> filepath_Base n)"
  have "NewDecoder ((rs p)\<lparr>rs_pos := 0\<rparr>) = \<lparr>dec_input = rs_data (rs p), dec_off = 0\<rparr>"
    by (simp add: NewDecoder_def)
  moreover have "ForEach_loop D \<lparr>dec_input = rs_data (rs p), dec_off = 0\<rparr> State_fn (state_New name)
      = Some (Inr (ledger name vs))"
    using ForEach_loop_decodes[OF assms(1), of State_fn "state_New name"]
      run_State_fn[OF assms(2), of "state_New name"]
    by (simp add: ledger_foldl)
  ultimately show ?thesis
    by (simp add: Player_State_def ForEach_def Reset_def Seek_def Let_def name_def)
qed

theorem state_ledger_contents_witness:
  "decodes_from sample_decode (rs_data (rs sample_player)) 0
      [Some chunk_m1, Some chunk_m2, Some chunk_f1]
   \<and> list_all has_parent [Some chunk_m1, Some chunk_m2, Some chunk_f1]
   \<and> (case Player_State sample_decode sample_player of
        Some (Inr s, p') \<Rightarrow>
          st_Messages s ''C1'' = {''1.0'', ''2.0''} \<and> st_Files s ''C1'' ''F1'' = Some []
      | _ \<Rightarrow> False)"
proof -
  have h1: "decodes_from sample_decode (rs_data (rs sample_player)) 0
      [Some chunk_m1, Some chunk_m2, Some chunk_f1]"
    by code_simp
  have h2: "list_all has_parent [Some chunk_m1, Some chunk_m2, Some chunk_f1]"
    by code_simp
  have m: "st_Messages (ledger ''rec.jsonl'' [Some chunk_m1, Some chunk_m2, Some chunk_f1]) ''C1''
      = {''1.0'', ''2.0''}"
    by (auto simp: ledger_def chunk_messages_def chunk_m1_def chunk_m2_def chunk_f1_def
        zero_Chunk_def mk_msg_def ChunkType_defs)
  have f: "st_Files (ledger ''rec.jsonl'' [Some chunk_m1, Some chunk_m2, Some chunk_f1]) ''C1'' ''F1''
      = Some []"
    by (simp add: ledger_def chunk_files_def chunk_m1_def chunk_m2_def chunk_f1_def
        zero_Chunk_def ChunkType_defs)
  have n: "(case rs_name (rs sample_player) of None \<Rightarrow> [] | Some n \<Rightarrow> filepath_Base n) = ''rec.jsonl''"
    by code_simp
  from state_ledger_contents[OF h1 h2] h1 h2 m f n show ?thesis
    by (auto split: option.splits sum.splits prod.splits)
qed

section \<open>Indexing and draining a log\<close>

lemma length_offsets_from: "length (offsets_from D bs off vs) = length vs"
  by (induction vs arbitrary: off) simp_all

lemma indexRecords_loop_decodes:
  "decodes_from D bs off (map Some cs) \<Longrightarrow> list_all (\<lambda>c. \<not> isl (ID S c)) cs \<Longrightarrow>
     indexRecords_loop S D \<lparr>dec_input = bs, dec_off = off\<rparr> ix =
       Some (Inr (build S (zip (offsets_from D bs off cs) cs) ix))"
proof (induction cs arbitrary: off ix)
  case Nil
  then show ?case
    by (subst indexRecords_loop.simps) (auto simp: Decode_def Let_def split: prod.splits sum.splits)
next
  case (Cons c cs)
  from Cons.prems(1) obtain n where
    d: "D (drop off bs) = (Inr (Some c), n)" and r: "decodes_from D bs (off + n) (map Some cs)"
    by (auto split: prod.splits sum.splits)
  from Cons.prems(2) obtain k where k: "ID S c = Inr k" and rest: "list_all (\<lambda>c. \<not> isl (ID S c)) cs"
    by (cases "ID S c") auto
  show ?case
    using d k Cons.IH[OF r rest, of "idx_append ix k (int off)"]
    by (subst indexRecords_loop.simps)
      (simp add: Decode_def Let_def InputOffset_def into_value_def)
qed

lemma map_of_idx_append:
  "map_of (idx_append ix k' off) k = (if k = k' then Some (idx_get ix k' @ [off]) else map_of ix k)"
  by (simp add: idx_append_def update_conv')

lemma idx_get_idx_append:
  "idx_get (idx_append ix k' off) k = (if k = k' then idx_get ix k' @ [off] else idx_get ix k)"
  by (simp add: idx_get_def map_of_idx_append)

lemma map_of_build:
  "map_of (build S es ix) k =
     (if map_of ix k = None \<and> filter (\<lambda>e. ID S (snd e) = Inr k) es = [] then None
      else Some (idx_get ix k @ map (int \<circ> fst) (filter (\<lambda>e. ID S (snd e) = Inr k) es)))"
proof (induction es arbitrary: ix)
  case Nil
  show ?case by (auto simp: idx_get_def)
next
  case (Cons e es)
  show ?case
  proof (cases "ID S (snd e)")
    case (Inl err)
    then show ?thesis by (simp add: Cons.IH)
  next
    case (Inr k')
    then show ?thesis
      by (simp add: Cons.IH map_of_idx_append idx_get_idx_append)
  qed
qed

lemma decodes_from_entry:
  "decodes_from D bs off (map Some cs) \<Longrightarrow> e \<in> set (zip (offsets_from D bs off cs) cs) \<Longrightarrow>
     \<exists>n. D (drop (fst e) bs) = (Inr (Some (snd e)), n)"
proof (induction cs arbitrary: off)
  case Nil
  then show ?case by simp
next
  case (Cons c cs)
  from Cons.prems(1) obtain n where
    d: "D (drop off bs) = (Inr (Some c), n)" and r: "decodes_from D bs (off + n) (map Some cs)"
    by (auto split: prod.splits sum.splits)
  from Cons.prems(2) d consider "e = (off, c)" | "e \<in> set (zip (offsets_from D bs (off + n) cs) cs)"
    by auto
  then show ?case
  proof cases
    case 1
    with d show ?thesis by simp
  next
    case 2
    with Cons.IH[OF r] show ?thesis by simp
  qed
qed

lemma filter_zip_snd:
  "length xs = length ys \<Longrightarrow> map snd (filter (\<lambda>e. P (snd e)) (zip xs ys)) = filter P ys"
  by (induction xs ys rule: list_induct2) simp_all

lemma tryGetChunk_reads:
  assumes "map_of (idx p) k = Some offs" and "cursor_pos p k = j" and "j < length offs"
    and "offs ! j = int off" and "D (drop off (rs_data (rs p))) = (Inr v, n)"
  shows "\<exists>p'. tryGetChunk D p k = (Inr (into_value v), p') \<and> idx p' = idx p
    \<and> rs_data (rs p') = rs_data (rs p) \<and> cursor_pos p' k = Suc j"
  using assms
  by (auto simp: tryGetChunk_def Let_def cursor_pos_def Seek_def NewDecoder_def Decode_def
      read_by_def split: option.splits)

lemma allForID_loop_drains:
  assumes "map_of (idx p) k = Some (map (int \<circ> fst) es)"
    and "\<forall>e\<in>set es. \<exists>n. D (drop (fst e) (rs_data (rs p))) = (Inr (Some (snd e)), n)"
    and "cursor_pos p k = j" and "j \<le> length es"
  shows "\<exists>p'. allForID_loop D p k fn m = Some (Inr (m @ concat (map (fn \<circ> snd) (drop j es))), p')"
  using assms
proof (induction "length es - j" arbitrary: p j m)
  case 0
  then have j: "j = length es" by simp
  with "0.prems"(1,3) have "fst (tryGetChunk D p k) = Inl EOF"
    using tryGetChunk_exhausted[of p k "map (int \<circ> fst) es" D] by simp
  then obtain p1 where "tryGetChunk D p k = (Inl EOF, p1)"
    by (cases "tryGetChunk D p k") auto
  with j show ?case
    by (subst allForID_loop.simps) simp
next
  case (Suc d)
  then have lt: "j < length es" by simp
  obtain off c where e: "es ! j = (off, c)" by (cases "es ! j")
  with lt have mem: "(off, c) \<in> set es" by (metis nth_mem)
  with Suc.prems(2) obtain n where dn: "D (drop off (rs_data (rs p))) = (Inr (Some c), n)"
    by fastforce
  have nth: "map (int \<circ> fst) es ! j = int off" using lt e by simp
  have ltm: "j < length (map (int \<circ> fst) es)" using lt by simp
  from tryGetChunk_reads[of p k "map (int \<circ> fst) es" j off D "Some c" n,
      OF Suc.prems(1) Suc.prems(3) ltm nth dn]
  obtain p1 where t: "tryGetChunk D p k = (Inr c, p1)" and i: "idx p1 = idx p"
    and dd: "rs_data (rs p1) = rs_data (rs p)" and cp: "cursor_pos p1 k = Suc j"
    by (auto simp: into_value_def)
  have "\<exists>p'. allForID_loop D p1 k fn (m @ fn c) =
      Some (Inr ((m @ fn c) @ concat (map (fn \<circ> snd) (drop (Suc j) es))), p')"
  proof (rule Suc.hyps(1))
    show "d = length es - Suc j" using Suc.hyps(2) by simp
    show "map_of (idx p1) k = Some (map (int \<circ> fst) es)" using i Suc.prems(1) by simp
    show "\<forall>e\<in>set es. \<exists>n. D (drop (fst e) (rs_data (rs p1))) = (Inr (Some (snd e)), n)"
      using dd Suc.prems(2) by simp
    show "cursor_pos p1 k = Suc j" by (rule cp)
    show "Suc j \<le> length es" using lt by simp
  qed
  moreover have "drop j es = (off, c) # drop (Suc j) es"
    using lt e by (simp add: Cons_nth_drop_Suc[symmetric])
  ultimately show ?case
    using t by (subst allForID_loop.simps) simp
qed

text \<open>
  C1. Let a stream, positioned at its start, hold the serialisation of the chunks \<open>cs\<close>,
  each of which has a key. Then building the player over the stream succeeds, and for the
  key \<open>k\<close> of any of the chunks, draining \<open>k\<close> (a reset, then \<open>tryGetChunk\<close> until it
  reports the end, appending the payload slice \<open>fn chunk\<close> of each chunk) returns exactly
  the payload slices of the chunks of \<open>cs\<close> whose key is \<open>k\<close>, concatenated in the order
  in which they were written.
\<close>

theorem round_trip:
  assumes "rs_pos r = 0"
    and "serialized D (rs_data r) cs"
    and "list_all (\<lambda>c. \<not> isl (ID S c)) cs"
    and "c0 \<in> set cs" and "ID S c0 = Inr k"
  shows "case NewPlayer S D r of
      Some (Inr p) \<Rightarrow>
        map_option fst (allForID D p k fn) =
          Some (Inr (concat (map fn (filter (\<lambda>c. ID S c = Inr k) cs))))
    | _ \<Rightarrow> False"
proof -
  define es where "es = zip (offsets_from D (rs_data r) 0 cs) cs"
  define ek where "ek = filter (\<lambda>e. ID S (snd e) = Inr k) es"
  define p where "p = \<lparr>rs = r\<lparr>rs_pos := 0\<rparr>, idx = build S es [], pointer = Map.empty, lastOffset = 0\<rparr>"
  have dec: "decodes_from D (rs_data r) 0 (map Some cs)"
    using assms(2) by (simp add: serialized_def)
  have "NewDecoder r = \<lparr>dec_input = rs_data r, dec_off = 0\<rparr>"
    using assms(1) by (simp add: NewDecoder_def)
  then have np: "NewPlayer S D r = Some (Inr p)"
    using indexRecords_loop_decodes[OF dec assms(3), of "[]"]
    by (simp add: NewPlayer_def indexRecords_def Seek_def p_def es_def)
  have "length (offsets_from D (rs_data r) 0 cs) = length cs"
    by (rule length_offsets_from)
  then have snd_ek: "map snd ek = filter (\<lambda>c. ID S c = Inr k) cs"
    unfolding ek_def es_def by (rule filter_zip_snd)
  have "c0 \<in> set (filter (\<lambda>c. ID S c = Inr k) cs)"
    using assms(4,5) by simp
  then have "filter (\<lambda>c. ID S c = Inr k) cs \<noteq> []"
    by (metis empty_iff empty_set)
  with snd_ek have "ek \<noteq> []" by auto
  then have look: "map_of (build S es []) k = Some (map (int \<circ> fst) ek)"
    by (simp add: map_of_build ek_def idx_get_def)
  define p1 where "p1 = p\<lparr>pointer := Map.empty, rs := (rs p)\<lparr>rs_pos := 0\<rparr>\<rparr>"
  have reset: "Reset p = (None, p1)"
    by (simp add: Reset_def Seek_def Let_def p1_def)
  have "\<exists>p'. allForID_loop D p1 k fn [] =
      Some (Inr ([] @ concat (map (fn \<circ> snd) (drop 0 ek))), p')"
  proof (rule allForID_loop_drains)
    show "map_of (idx p1) k = Some (map (int \<circ> fst) ek)"
      using look by (simp add: p1_def p_def)
    show "\<forall>e\<in>set ek. \<exists>n. D (drop (fst e) (rs_data (rs p1))) = (Inr (Some (snd e)), n)"
    proof
      fix e assume "e \<in> set ek"
      then have "e \<in> set (zip (offsets_from D (rs_data r) 0 cs) cs)"
        by (simp add: ek_def es_def)
      from decodes_from_entry[OF dec this]
      show "\<exists>n. D (drop (fst e) (rs_data (rs p1))) = (Inr (Some (snd e)), n)"
        by (simp add: p1_def p_def)
    qed
    show "cursor_pos p1 k = 0" by (simp add: cursor_pos_def p1_def)
    show "0 \<le> length ek" by simp
  qed
  then obtain p' where "allForID_loop D p1 k fn [] = Some (Inr (concat (map (fn \<circ> snd) ek)), p')"
    by auto
  moreover have "concat (map (fn \<circ> snd) ek) = concat (map fn (filter (\<lambda>c. ID S c = Inr k) cs))"
    using snd_ek by (metis map_map)
  ultimately have "map_option fst (allForID D p k fn) =
      Some (Inr (concat (map fn (filter (\<lambda>c. ID S c = Inr k) cs))))"
    using reset by (simp add: allForID_def)
  with np show ?thesis by simp
qed

theorem round_trip_witness:
  "rs_pos sample_rs = 0
   \<and> serialized sample_decode (rs_data sample_rs) [chunk_m1, chunk_m2, chunk_f1]
   \<and> list_all (\<lambda>c. \<not> isl (ID ChunkType_String c)) [chunk_m1, chunk_m2, chunk_f1]
   \<and> chunk_m1 \<in> set [chunk_m1, chunk_m2, chunk_f1]
   \<and> ID ChunkType_String chunk_m1 = Inr ''C1''
   \<and> (case NewPlayer ChunkType_String sample_decode sample_rs of
        Some (Inr p) \<Rightarrow>
          map_option fst (allForID sample_decode p ''C1'' Messages) =
            Some (Inr [mk_msg ''1.0'' [], mk_msg ''2.0'' []])
      | _ \<Rightarrow> False)"
proof -
  have h1: "rs_pos sample_rs = 0"
    by (simp add: sample_rs_def)
  have h2: "serialized sample_decode (rs_data sample_rs) [chunk_m1, chunk_m2, chunk_f1]"
    by code_simp
  have h3: "list_all (\<lambda>c. \<not> isl (ID ChunkType_String c)) [chunk_m1, chunk_m2, chunk_f1]"
    by code_simp
  have h4: "chunk_m1 \<in> set [chunk_m1, chunk_m2, chunk_f1]"
    by simp
  have h5: "ID ChunkType_String chunk_m1 = Inr ''C1''"
    by (simp add: ID_def chunk_m1_def zero_Chunk_def)
  have v: "concat (map Messages (filter (\<lambda>c. ID ChunkType_String c = Inr ''C1'')
      [chunk_m1, chunk_m2, chunk_f1])) = [mk_msg ''1.0'' [], mk_msg ''2.0'' []]"
    by code_simp
  from round_trip[OF h1 h2 h3 h4 h5, of Messages] h1 h2 h3 h4 h5 v show ?thesis
    by (auto split: option.splits sum.splits)
qed

end
